theory Spec2Isabelle
  imports Main "HOL-Library.Word"
begin

section \<open>JavaScript strings\<close>

text \<open>
  A JavaScript string is a sequence of UTF-16 code units. String literals of the source
  that are plain ASCII are written with \<open>js\<close>.
\<close>

type_synonym code_unit = "16 word"
type_synonym js_string = "code_unit list"

definition js :: "string \<Rightarrow> js_string" where
  "js s = map of_char s"

text \<open>
  \<open>String(n)\<close> and the template substitution \<open>${n}\<close> of a non-negative integer: its
  decimal digits.
\<close>

fun string_of_nat :: "nat \<Rightarrow> js_string" where
  "string_of_nat n =
     (if n < 10 then [of_nat (48 + n)]
      else string_of_nat (n div 10) @ [of_nat (48 + n mod 10)])"

declare string_of_nat.simps [simp del]

text \<open>
  \<open>String.prototype.trim\<close> removes the WhiteSpace and LineTerminator code points of
  ECMAScript from both ends of the string.
\<close>

definition is_trim_space :: "code_unit \<Rightarrow> bool" where
  "is_trim_space u \<longleftrightarrow>
     u \<in> {0x9, 0xA, 0xB, 0xC, 0xD, 0x20, 0xA0, 0x1680, 0x2028, 0x2029, 0x202F, 0x205F,
          0x3000, 0xFEFF}
     \<or> (0x2000 \<le> u \<and> u \<le> 0x200A)"

definition trim :: "js_string \<Rightarrow> js_string" where
  "trim s = rev (dropWhile is_trim_space (rev (dropWhile is_trim_space s)))"

section \<open>Data model\<close>

datatype role = User | Ai

record message =
  msg_role :: role
  msg_text :: js_string
  msg_audioUrl :: "js_string option"
  msg_timestamp :: nat

record conversation =
  conv_id :: js_string
  conv_title :: js_string
  conv_createdAt :: nat
  conv_messages :: "message list"

record usr =
  uid :: js_string

record js_file =
  file_name :: js_string

record blob =
  blob_bytes :: "8 word list"
  blob_type :: js_string

text \<open>The requests issued to the remote document store, in the order they are made.\<close>

datatype remote_op =
  SetDoc js_string js_string conversation
| DeleteDoc js_string js_string

text \<open>
  The component state of \<open>App\<close> that the conversation logic reads and writes, together
  with the effects it has on its surroundings: the messages shown with \<open>alert\<close>, the
  writes requested from the document store and the object URLs registered with the
  browser.
\<close>

record app =
  conversations :: "conversation list"
  currentConversationId :: "js_string option"
  inputText :: js_string
  loading :: bool
  chatLoading :: bool
  selectedFile :: "js_file option"
  user :: "usr option"
  alerts :: "js_string list"
  firestore :: "remote_op list"
  object_urls :: "(js_string \<times> blob) list"

text \<open>
  What one call of \<open>createNewConversation\<close> reads from its surroundings:
  \<open>window.crypto.randomUUID()\<close> when the browser has it, and the two readings of
  \<open>Date.now()\<close> (the first is only taken for the fallback id).
\<close>

record env =
  randomUUID :: "js_string option"
  now_id :: nat
  now :: nat

section \<open>Conversation store\<close>

definition createNewConversation :: "env \<Rightarrow> nat \<Rightarrow> conversation" where
  "createNewConversation e index =
     \<lparr>conv_id = (case randomUUID e of Some u \<Rightarrow> u | None \<Rightarrow> string_of_nat (now_id e)),
      conv_title = js ''New Chat '' @ string_of_nat index,
      conv_createdAt = now e,
      conv_messages = []\<rparr>"

text \<open>
  \<open>saveConversationToFirestore\<close> and \<open>deleteConversationFromFirestore\<close> with the
  \<open>user\<close> of the render they were created in: nothing is requested without a user.
\<close>

definition saveConversationToFirestore :: "usr option \<Rightarrow> conversation \<Rightarrow> app \<Rightarrow> app" where
  "saveConversationToFirestore u conv s =
     (case u of
        None \<Rightarrow> s
      | Some usr \<Rightarrow> s\<lparr>firestore := firestore s @ [SetDoc (uid usr) (conv_id conv) conv]\<rparr>)"

definition deleteConversationFromFirestore :: "usr option \<Rightarrow> js_string \<Rightarrow> app \<Rightarrow> app" where
  "deleteConversationFromFirestore u convId s =
     (case u of
        None \<Rightarrow> s
      | Some usr \<Rightarrow> s\<lparr>firestore := firestore s @ [DeleteDoc (uid usr) convId]\<rparr>)"

text \<open>The state of the first render: the initial values given to \<open>useState\<close>.\<close>

definition initial_app :: app where
  "initial_app =
     \<lparr>conversations = [], currentConversationId = None, inputText = [], loading = False,
      chatLoading = False, selectedFile = None, user = None, alerts = [], firestore = [],
      object_urls = []\<rparr>"

text \<open>The effect that runs while nobody is logged in (lines 75 to 81).\<close>

definition loggedOutEffect :: "env \<Rightarrow> app \<Rightarrow> app" where
  "loggedOutEffect e s =
     (case user s of
        None \<Rightarrow>
          (let firstConv = createNewConversation e 1
           in s\<lparr>conversations := [firstConv],
                currentConversationId := Some (conv_id firstConv)\<rparr>)
      | Some _ \<Rightarrow> s)"

text \<open>
  \<open>currentConversation\<close>: the conversation with the active id, or else the first one;
  \<open>undefined\<close> (here \<open>None\<close>) only when the store is empty.
\<close>

definition currentConversation :: "app \<Rightarrow> conversation option" where
  "currentConversation s =
     (case (case currentConversationId s of
              None \<Rightarrow> None
            | Some i \<Rightarrow> find (\<lambda>c. conv_id c = i) (conversations s)) of
        Some c \<Rightarrow> Some c
      | None \<Rightarrow> (case conversations s of [] \<Rightarrow> None | c # _ \<Rightarrow> Some c))"

definition handleNewChat :: "env \<Rightarrow> app \<Rightarrow> app" where
  "handleNewChat e s =
     (let nextIndex = length (conversations s) + 1;
          newConv = createNewConversation e nextIndex
      in saveConversationToFirestore (user s) newConv
           (s\<lparr>conversations := conversations s @ [newConv],
              currentConversationId := Some (conv_id newConv),
              inputText := []\<rparr>))"

definition deleteChatById :: "env \<Rightarrow> js_string \<Rightarrow> app \<Rightarrow> app" where
  "deleteChatById e convId s =
     (let filtered = filter (\<lambda>c. conv_id c \<noteq> convId) (conversations s);
          s1 = (if user s \<noteq> None then deleteConversationFromFirestore (user s) convId s else s)
      in case filtered of
           [] \<Rightarrow>
             (let newConv = createNewConversation e 1;
                  s2 = s1\<lparr>currentConversationId := Some (conv_id newConv)\<rparr>;
                  s3 = (if user s \<noteq> None
                        then saveConversationToFirestore (user s) newConv s2
                        else s2)
              in s3\<lparr>conversations := [newConv]\<rparr>)
         | first # _ \<Rightarrow>
             (let s2 = (if Some convId = currentConversationId s
                        then s1\<lparr>currentConversationId := Some (conv_id first)\<rparr>
                        else s1)
              in s2\<lparr>conversations := filtered\<rparr>))"

text \<open>
  The listener of the subscription that the effect of lines 117 to 157 opens for the
  logged-in user \<open>u\<close>, called with the documents of a snapshot in the order of the
  query (by \<open>createdAt\<close>).
\<close>

definition onSnapshot :: "usr \<Rightarrow> env \<Rightarrow> conversation list \<Rightarrow> app \<Rightarrow> app" where
  "onSnapshot u e snapshot s =
     (let s0 = s\<lparr>chatLoading := False\<rparr>
      in case snapshot of
           [] \<Rightarrow>
             (let firstConv = createNewConversation e 1
              in saveConversationToFirestore (Some u) firstConv
                   (s0\<lparr>conversations := [firstConv],
                       currentConversationId := Some (conv_id firstConv)\<rparr>))
         | first # _ \<Rightarrow>
             (let loaded = snapshot
              in s0\<lparr>conversations := loaded,
                     currentConversationId :=
                       (case currentConversationId s0 of
                          None \<Rightarrow> Some (conv_id first)
                        | Some prev \<Rightarrow>
                            (case find (\<lambda>c. conv_id c = prev) loaded of
                               Some stillExists \<Rightarrow> Some prev
                             | None \<Rightarrow> Some (conv_id first)))\<rparr>))"

text \<open>
  \<open>updateCurrentConversationMessages\<close> closes over the \<open>user\<close> and the
  \<open>currentConversation\<close> of the render it was created in; \<open>updateMessagesOf\<close> takes
  the two as arguments, so that a handler which awaits in between can call it twice with
  what it captured.
\<close>

definition updateMessagesOf ::
  "usr option \<Rightarrow> conversation option \<Rightarrow> (message list \<Rightarrow> message list) \<Rightarrow> app \<Rightarrow> app" where
  "updateMessagesOf u current updater s =
     (case current of
        None \<Rightarrow> s
      | Some cc \<Rightarrow>
          (let updated =
                 map (\<lambda>c. if conv_id c = conv_id cc
                          then c\<lparr>conv_messages := updater (conv_messages c)\<rparr> else c)
                   (conversations s);
               s1 = (case u of
                       None \<Rightarrow> s
                     | Some _ \<Rightarrow>
                         (case find (\<lambda>c. conv_id c = conv_id cc) updated of
                            None \<Rightarrow> s
                          | Some conv \<Rightarrow> saveConversationToFirestore u conv s))
           in s1\<lparr>conversations := updated\<rparr>))"

definition updateCurrentConversationMessages ::
  "(message list \<Rightarrow> message list) \<Rightarrow> app \<Rightarrow> app" where
  "updateCurrentConversationMessages updater s =
     updateMessagesOf (user s) (currentConversation s) updater s"

text \<open>
  \<open>handleRenameChat\<close>; \<open>prompted\<close> is what \<open>window.prompt\<close> returned (\<open>null\<close>, here
  \<open>None\<close>, when the dialog was cancelled).
\<close>

definition handleRenameChat :: "js_string option \<Rightarrow> conversation \<Rightarrow> app \<Rightarrow> app" where
  "handleRenameChat prompted conv s =
     (case prompted of
        None \<Rightarrow> s
      | Some newTitle \<Rightarrow>
          if newTitle = [] \<or> trim newTitle = [] then s
          else
            (let updatedTitle = trim newTitle;
                 s1 = s\<lparr>conversations :=
                          map (\<lambda>c. if conv_id c = conv_id conv
                                   then c\<lparr>conv_title := updatedTitle\<rparr> else c)
                            (conversations s)\<rparr>;
                 updatedConv = conv\<lparr>conv_title := updatedTitle\<rparr>
             in saveConversationToFirestore (user s) updatedConv s1))"

text \<open>A session of create and delete requests, each with what it read from the browser.\<close>

datatype store_op = NewChat | DeleteChat js_string

fun store_step :: "app \<Rightarrow> env \<times> store_op \<Rightarrow> app" where
  "store_step s (e, NewChat) = handleNewChat e s"
| "store_step s (e, DeleteChat convId) = deleteChatById e convId s"

definition run_ops :: "(env \<times> store_op) list \<Rightarrow> app \<Rightarrow> app" where
  "run_ops ops s = foldl store_step s ops"


section \<open>Audio codec adapter\<close>

text \<open>
  The backend produces \<open>audioBase64\<close> with \<open>Buffer.toString("base64")\<close> and the client
  reads it with \<open>atob\<close>. Neither is code of the repository: the encoder is modelled
  after RFC 4648 (standard alphabet, with padding) and \<open>atob\<close> after the
  forgiving-base64 decoding of the WHATWG Infra standard, which removes ASCII
  whitespace, removes one or two padding characters from a length that is a multiple
  of four, and fails on a remaining length of 1 modulo 4 and on any other character.
  \<open>atob\<close> returns \<open>None\<close> where the browser throws \<open>InvalidCharacterError\<close>.
\<close>

definition base64_alphabet :: js_string where
  "base64_alphabet = js ''ABCDEFGHIJKLMNOPQRSTUVWXYZabcdefghijklmnopqrstuvwxyz0123456789+/''"

text \<open>The character of a six-bit value; the encoder only asks for values below 64.\<close>

definition base64_char :: "nat \<Rightarrow> code_unit" where
  "base64_char n = base64_alphabet ! n"

fun base64_encode :: "8 word list \<Rightarrow> js_string" where
  "base64_encode (a # b # c # rest) =
     base64_char (unat a div 4) #
     base64_char (unat a mod 4 * 16 + unat b div 16) #
     base64_char (unat b mod 16 * 4 + unat c div 64) #
     base64_char (unat c mod 64) # base64_encode rest"
| "base64_encode [a, b] =
     [base64_char (unat a div 4),
      base64_char (unat a mod 4 * 16 + unat b div 16),
      base64_char (unat b mod 16 * 4), 0x3D]"
| "base64_encode [a] =
     [base64_char (unat a div 4), base64_char (unat a mod 4 * 16), 0x3D, 0x3D]"
| "base64_encode [] = []"

definition is_ascii_whitespace :: "code_unit \<Rightarrow> bool" where
  "is_ascii_whitespace u \<longleftrightarrow> u \<in> {0x9, 0xA, 0xC, 0xD, 0x20}"

fun index_of :: "'a \<Rightarrow> 'a list \<Rightarrow> nat option" where
  "index_of x [] = None"
| "index_of x (y # ys) = (if x = y then Some 0 else map_option Suc (index_of x ys))"

definition base64_value :: "code_unit \<Rightarrow> nat option" where
  "base64_value u = index_of u base64_alphabet"

fun base64_values :: "js_string \<Rightarrow> nat list option" where
  "base64_values [] = Some []"
| "base64_values (u # us) =
     (case base64_value u of
        None \<Rightarrow> None
      | Some v \<Rightarrow> (case base64_values us of None \<Rightarrow> None | Some vs \<Rightarrow> Some (v # vs)))"

definition remove_padding :: "js_string \<Rightarrow> js_string" where
  "remove_padding data =
     (if length data mod 4 = 0 then
        (case rev data of
           c1 # c2 # r \<Rightarrow>
             if c1 = 0x3D \<and> c2 = 0x3D then rev r
             else if c1 = 0x3D then rev (c2 # r)
             else data
         | _ \<Rightarrow> data)
      else data)"

fun decode_values :: "nat list \<Rightarrow> 8 word list" where
  "decode_values (a # b # c # d # rest) =
     of_nat (a * 4 + b div 16) # of_nat (b mod 16 * 16 + c div 4) # of_nat (c mod 4 * 64 + d) #
     decode_values rest"
| "decode_values [a, b, c] = [of_nat (a * 4 + b div 16), of_nat (b mod 16 * 16 + c div 4)]"
| "decode_values [a, b] = [of_nat (a * 4 + b div 16)]"
| "decode_values _ = []"

definition atob :: "js_string \<Rightarrow> js_string option" where
  "atob data =
     (let stripped = filter (\<lambda>u. \<not> is_ascii_whitespace u) data;
          body = remove_padding stripped
      in if length body mod 4 = 1 then None
         else case base64_values body of
                None \<Rightarrow> None
              | Some vs \<Rightarrow> Some (map ucast (decode_values vs)))"

text \<open>
  The loop of \<open>base64ToAudioUrl\<close> (lines 67 to 69): a store into a \<open>Uint8Array\<close>
  keeps the low eight bits of the character code.
\<close>

function fill_bytes :: "js_string \<Rightarrow> nat \<Rightarrow> 8 word list \<Rightarrow> 8 word list" where
  "fill_bytes binary i bytes =
     (if i < length binary
      then fill_bytes binary (i + 1) (bytes[i := ucast (binary ! i)])
      else bytes)"
  by pat_completeness auto
termination
  by (relation "measure (\<lambda>(binary, i, bytes). length binary - i)") auto

declare fill_bytes.simps [simp del]

text \<open>
  \<open>base64ToAudioUrl\<close>; \<open>url\<close> is the URL that \<open>URL.createObjectURL\<close> hands out for the
  blob, which the browser registers under it.
\<close>

definition base64ToAudioUrl :: "js_string \<Rightarrow> js_string \<Rightarrow> app \<Rightarrow> (js_string \<times> app) option" where
  "base64ToAudioUrl url base64 s =
     (case atob base64 of
        None \<Rightarrow> None
      | Some binary \<Rightarrow>
          (let len = length binary;
               bytes = fill_bytes binary 0 (replicate len 0);
               blob = \<lparr>blob_bytes = bytes, blob_type = js ''audio/mpeg''\<rparr>
           in Some (url, s\<lparr>object_urls := (url, blob) # object_urls s\<rparr>)))"

section \<open>Message exchange\<close>

text \<open>
  What the backend answered: \<open>fetch\<close> rejects with an error message, or resolves with a
  status and a body. A body is \<open>Unreadable\<close> when \<open>response.json()\<close> rejects or yields a
  value without properties (with the message of the error thrown), else it is an object
  whose fields \<open>replyText\<close>, \<open>audioBase64\<close> and \<open>error\<close> are strings or absent.
\<close>

record reply =
  json_replyText :: "js_string option"
  json_audioBase64 :: "js_string option"
  json_error :: "js_string option"

datatype response_body = Unreadable js_string | Json reply

datatype fetch_result = Rejected js_string | Response nat response_body

text \<open>\<open>response.ok\<close>: the status is in the range 200 to 299.\<close>

definition response_ok :: "nat \<Rightarrow> bool" where
  "response_ok status \<longleftrightarrow> 200 \<le> status \<and> status \<le> 299"

text \<open>Truthiness of an optional string: present and not empty.\<close>

definition truthy :: "js_string option \<Rightarrow> bool" where
  "truthy v \<longleftrightarrow> (case v of None \<Rightarrow> False | Some t \<Rightarrow> t \<noteq> [])"

text \<open>
  What one call of \<open>handleSend\<close> reads from its surroundings: the two readings of
  \<open>Date.now()\<close>, the outcome of the request, the message of the exception that \<open>atob\<close>
  throws if it throws, and the URL handed out for the audio blob.
\<close>

record exchange =
  sent_at :: nat
  fetched :: fetch_result
  atob_failure :: js_string
  object_url :: js_string
  replied_at :: nat

definition alert :: "js_string \<Rightarrow> app \<Rightarrow> app" where
  "alert msg s = s\<lparr>alerts := alerts s @ [msg]\<rparr>"

text \<open>The paper clip U+1F4CE as a surrogate pair, and a space.\<close>

definition paperclip :: js_string where
  "paperclip = [0xD83D, 0xDCCE, 0x20]"

text \<open>\<open>messages\<close> (line 163): the messages of the conversation on display.\<close>

definition messages :: "app \<Rightarrow> message list" where
  "messages s = (case currentConversation s of None \<Rightarrow> [] | Some c \<Rightarrow> conv_messages c)"

text \<open>
  The \<open>try\<close> block of \<open>handleSend\<close> with its \<open>catch\<close>, for the \<open>user\<close>, the
  \<open>currentConversation\<close> and the \<open>selectedFile\<close> that the handler captured.
\<close>

definition tryExchange ::
  "exchange \<Rightarrow> usr option \<Rightarrow> conversation \<Rightarrow> js_file option \<Rightarrow> app \<Rightarrow> app" where
  "tryExchange x u cc file s =
     (case fetched x of
        Rejected msg \<Rightarrow> alert (js ''Network error: '' @ msg) s
      | Response status body \<Rightarrow>
          (let s1 = (if file \<noteq> None then s\<lparr>selectedFile := None\<rparr> else s)
           in if \<not> response_ok status then
                alert (js ''Server error '' @ string_of_nat status @ js '': '' @
                       (case body of
                          Unreadable _ \<Rightarrow> []
                        | Json errData \<Rightarrow>
                            (case json_error errData of None \<Rightarrow> [] | Some detail \<Rightarrow> detail)))
                  s1
              else
                (case body of
                   Unreadable msg \<Rightarrow> alert (js ''Network error: '' @ msg) s1
                 | Json data \<Rightarrow>
                     if \<not> truthy (json_audioBase64 data) \<or> \<not> truthy (json_replyText data)
                     then alert (js ''Server did not return audioBase64 / replyText'') s1
                     else
                       (case (json_audioBase64 data, json_replyText data) of
                          (Some audio, Some replyText) \<Rightarrow>
                            (case base64ToAudioUrl (object_url x) audio s1 of
                               None \<Rightarrow> alert (js ''Network error: '' @ atob_failure x) s1
                             | Some (audioUrl, s2) \<Rightarrow>
                                 updateMessagesOf u (Some cc)
                                   (\<lambda>msgs. msgs @
                                      [\<lparr>msg_role = Ai, msg_text = replyText,
                                        msg_audioUrl = Some audioUrl,
                                        msg_timestamp = replied_at x\<rparr>])
                                   s2)
                        | _ \<Rightarrow>
                            alert (js ''Server did not return audioBase64 / replyText'') s1))))"

text \<open>
  \<open>displayText\<close> (lines 285 to 289), for the text to send and the \<open>selectedFile\<close>.
\<close>

definition displayText :: "js_string \<Rightarrow> js_file option \<Rightarrow> js_string" where
  "displayText text file =
     (if trim text \<noteq> [] then text
      else case file of
             Some f \<Rightarrow> paperclip @ file_name f
           | None \<Rightarrow> [])"

definition handleSend :: "exchange \<Rightarrow> js_string option \<Rightarrow> app \<Rightarrow> app" where
  "handleSend x textToSend s =
     (let text = (case textToSend of None \<Rightarrow> inputText s | Some t \<Rightarrow> t)
      in if trim text = [] \<and> selectedFile s = None
         then alert (js ''Please type a message or upload a file.'') s
         else
           (case currentConversation s of
              None \<Rightarrow> alert (js ''No active conversation. Create a new chat first.'') s
            | Some cc \<Rightarrow>
                (let s1 = (if displayText text (selectedFile s) \<noteq> []
                           then updateMessagesOf (user s) (Some cc)
                                  (\<lambda>msgs. msgs @
                                     [\<lparr>msg_role = User,
                                       msg_text = displayText text (selectedFile s),
                                       msg_audioUrl = None, msg_timestamp = sent_at x\<rparr>])
                                  s
                           else s);
                     s2 = s1\<lparr>loading := True, inputText := []\<rparr>;
                     s3 = tryExchange x (user s) cc (selectedFile s) s2
                 in s3\<lparr>loading := False\<rparr>)))"

text \<open>
  An exchange that fails: a network error, a status that is not a success, or a success
  response whose body cannot be read or lacks \<open>replyText\<close> or \<open>audioBase64\<close>.
\<close>

definition exchange_failed :: "exchange \<Rightarrow> bool" where
  "exchange_failed x =
     (case fetched x of
        Rejected _ \<Rightarrow> True
      | Response status body \<Rightarrow>
          \<not> response_ok status \<or>
          (case body of
             Unreadable _ \<Rightarrow> True
           | Json data \<Rightarrow> \<not> truthy (json_replyText data) \<or> \<not> truthy (json_audioBase64 data)))"

section \<open>Example values\<close>

definition env_of :: "string \<Rightarrow> nat \<Rightarrow> env" where
  "env_of u t = \<lparr>randomUUID = Some (js u), now_id = t, now = t\<rparr>"

definition anonymous_start :: app where
  "anonymous_start = loggedOutEffect (env_of ''u0'' 100) initial_app"

definition alice :: usr where
  "alice = \<lparr>uid = js ''alice''\<rparr>"

definition two_chats :: app where
  "two_chats = handleNewChat (env_of ''u1'' 200) anonymous_start"

text \<open>A store whose active id names none of its conversations.\<close>

definition stale_selection :: app where
  "stale_selection = anonymous_start\<lparr>currentConversationId := Some (js ''zz'')\<rparr>"

text \<open>A session that creates a second conversation, deletes it and creates a third.\<close>

definition recreated_session :: app where
  "recreated_session =
     run_ops [(env_of ''u1'' 200, NewChat), (env_of ''u2'' 300, DeleteChat (js ''u1'')),
              (env_of ''u3'' 400, NewChat)] anonymous_start"

definition hello :: message where
  "hello = \<lparr>msg_role = User, msg_text = js ''hello'', msg_audioUrl = None, msg_timestamp = 500\<rparr>"

definition append_hello :: "message list \<Rightarrow> message list" where
  "append_hello msgs = msgs @ [hello]"

text \<open>
  Three answers of the backend: a reply whose audio is the encoding of three bytes, a
  reply whose audio is not base64, and an internal error.
\<close>

definition good_reply :: exchange where
  "good_reply =
     \<lparr>sent_at = 500,
      fetched = Response 200
        (Json \<lparr>json_replyText = Some (js ''hi there''),
               json_audioBase64 = Some (base64_encode [73, 68, 51]),
               json_error = None\<rparr>),
      atob_failure = js ''The string to be decoded is not correctly encoded.'',
      object_url = js ''blob:1'',
      replied_at = 600\<rparr>"

definition undecodable_reply :: exchange where
  "undecodable_reply =
     \<lparr>sent_at = 500,
      fetched = Response 200
        (Json \<lparr>json_replyText = Some (js ''hi there''),
               json_audioBase64 = Some (js ''!''),
               json_error = None\<rparr>),
      atob_failure = js ''The string to be decoded is not correctly encoded.'',
      object_url = js ''blob:1'',
      replied_at = 600\<rparr>"

definition server_error :: exchange where
  "server_error =
     \<lparr>sent_at = 500,
      fetched = Response 500
        (Json \<lparr>json_replyText = None, json_audioBase64 = None,
               json_error = Some (js ''No reply from Gemini'')\<rparr>),
      atob_failure = js ''The string to be decoded is not correctly encoded.'',
      object_url = js ''blob:1'',
      replied_at = 600\<rparr>"

section \<open>Properties of the conversation store\<close>

lemma createNewConversation_env_of:
  "conv_id (createNewConversation (env_of u t) n) = js u"
  "conv_messages (createNewConversation (env_of u t) n) = []"
  by (simp_all add: createNewConversation_def env_of_def)

lemma example_ids_distinct:
  "js ''u1'' \<noteq> js ''u0''" "js ''u0'' \<noteq> js ''u1''"
  "js ''zz'' \<noteq> js ''u0''" "js ''zz'' \<noteq> js ''u1''"
  by (simp_all add: js_def)


lemma conversations_saveConversationToFirestore [simp]:
  "conversations (saveConversationToFirestore u conv s) = conversations s"
  by (simp add: saveConversationToFirestore_def split: option.splits)

lemma currentConversationId_saveConversationToFirestore [simp]:
  "currentConversationId (saveConversationToFirestore u conv s) = currentConversationId s"
  by (simp add: saveConversationToFirestore_def split: option.splits)

lemma conversations_deleteConversationFromFirestore [simp]:
  "conversations (deleteConversationFromFirestore u convId s) = conversations s"
  by (simp add: deleteConversationFromFirestore_def split: option.splits)

lemma currentConversationId_deleteConversationFromFirestore [simp]:
  "currentConversationId (deleteConversationFromFirestore u convId s) = currentConversationId s"
  by (simp add: deleteConversationFromFirestore_def split: option.splits)

lemma conversations_handleNewChat:
  "conversations (handleNewChat e s) =
     conversations s @ [createNewConversation e (length (conversations s) + 1)]"
  by (simp add: handleNewChat_def Let_def)

lemma conversations_deleteChatById:
  "conversations (deleteChatById e convId s) =
     (if filter (\<lambda>c. conv_id c \<noteq> convId) (conversations s) = []
      then [createNewConversation e 1]
      else filter (\<lambda>c. conv_id c \<noteq> convId) (conversations s))"
  by (simp add: deleteChatById_def Let_def split: list.splits)

lemma currentConversationId_deleteChatById:
  "currentConversationId (deleteChatById e convId s) =
     (if filter (\<lambda>c. conv_id c \<noteq> convId) (conversations s) = []
      then Some (conv_id (createNewConversation e 1))
      else if Some convId = currentConversationId s
      then Some (conv_id (hd (filter (\<lambda>c. conv_id c \<noteq> convId) (conversations s))))
      else currentConversationId s)"
  by (simp add: deleteChatById_def Let_def split: list.splits)

lemma store_step_nonempty: "conversations (store_step s x) \<noteq> []"
proof (cases x)
  case (Pair e op)
  then show ?thesis
    by (cases op) (simp_all add: conversations_handleNewChat conversations_deleteChatById)
qed

lemma run_ops_nonempty:
  "conversations s \<noteq> [] \<Longrightarrow> conversations (run_ops ops s) \<noteq> []"
  unfolding run_ops_def
  by (induction ops arbitrary: s) (simp_all add: store_step_nonempty)

text \<open>
  C10: deleting a conversation whose id is not the active id, when at least one
  conversation remains afterwards, leaves the active id as it was, and the store is
  the prior store without the conversations of the deleted id: every remaining record
  is a record of the prior store, with the same id, title, creation time and messages.
\<close>

theorem deleteChatById_frame:
  assumes "currentConversationId s \<noteq> Some convId"
    and "filter (\<lambda>c. conv_id c \<noteq> convId) (conversations s) \<noteq> []"
  shows "currentConversationId (deleteChatById e convId s) = currentConversationId s \<and>
         conversations (deleteChatById e convId s) =
           filter (\<lambda>c. conv_id c \<noteq> convId) (conversations s) \<and>
         (\<forall>c \<in> set (conversations s).
            conv_id c \<noteq> convId \<longrightarrow> c \<in> set (conversations (deleteChatById e convId s)))"
proof -
  from assms(1) have "Some convId \<noteq> currentConversationId s"
    by (rule not_sym)
  with assms(2) show ?thesis
    by (simp add: conversations_deleteChatById currentConversationId_deleteChatById)
qed

theorem deleteChatById_frame_witness:
  "currentConversationId (handleNewChat (env_of ''u1'' 200) anonymous_start) \<noteq> Some (js ''u0'') \<and>
   currentConversationId
     (deleteChatById (env_of ''u2'' 300) (js ''u0'')
        (handleNewChat (env_of ''u1'' 200) anonymous_start)) = Some (js ''u1'') \<and>
   map conv_id (conversations
     (deleteChatById (env_of ''u2'' 300) (js ''u0'')
        (handleNewChat (env_of ''u1'' 200) anonymous_start))) = [js ''u1'']"
  using deleteChatById_frame
    [of "handleNewChat (env_of ''u1'' 200) anonymous_start" "js ''u0''" "env_of ''u2'' 300"]
  by (simp add: anonymous_start_def loggedOutEffect_def initial_app_def handleNewChat_def
      createNewConversation_def env_of_def js_def Let_def)

text \<open>
  C1: a store that holds a conversation holds one after every sequence of create and
  delete requests, at every point of the sequence; this is so for the store of an
  anonymous session from its first effect on. Deleting the only conversation of the
  store leaves exactly one conversation, the fresh default of index 1 (titled
  \<open>New Chat 1\<close>, no messages), and makes it the active one.
\<close>

theorem store_never_empty:
  "(conversations s \<noteq> [] \<longrightarrow> (\<forall>n. conversations (run_ops (take n ops) s) \<noteq> [])) \<and>
   (\<forall>n. conversations (run_ops (take n ops) (loggedOutEffect e0 initial_app)) \<noteq> []) \<and>
   (conversations s = [c] \<longrightarrow>
      conversations (deleteChatById e (conv_id c) s) = [createNewConversation e 1] \<and>
      currentConversationId (deleteChatById e (conv_id c) s) =
        Some (conv_id (createNewConversation e 1)) \<and>
      conv_title (createNewConversation e 1) = js ''New Chat 1'' \<and>
      conv_messages (createNewConversation e 1) = [])"
proof (intro conjI allI impI)
  fix n assume "conversations s \<noteq> []"
  then show "conversations (run_ops (take n ops) s) \<noteq> []"
    by (rule run_ops_nonempty)
next
  fix n
  have "conversations (loggedOutEffect e0 initial_app) \<noteq> []"
    by (simp add: loggedOutEffect_def initial_app_def Let_def)
  then show "conversations (run_ops (take n ops) (loggedOutEffect e0 initial_app)) \<noteq> []"
    by (rule run_ops_nonempty)
next
  assume "conversations s = [c]"
  then show "conversations (deleteChatById e (conv_id c) s) = [createNewConversation e 1]"
    by (simp add: conversations_deleteChatById)
next
  assume "conversations s = [c]"
  then show "currentConversationId (deleteChatById e (conv_id c) s) =
      Some (conv_id (createNewConversation e 1))"
    by (simp add: currentConversationId_deleteChatById)
next
  show "conv_title (createNewConversation e 1) = js ''New Chat 1''"
    by (simp add: createNewConversation_def js_def string_of_nat.simps)
next
  show "conv_messages (createNewConversation e 1) = []"
    by (simp add: createNewConversation_def)
qed

theorem store_never_empty_witness:
  "conversations anonymous_start = [createNewConversation (env_of ''u0'' 100) 1] \<and>
   conversations anonymous_start \<noteq> [] \<and>
   conversations
     (run_ops (take 2 [(env_of ''u1'' 200, NewChat), (env_of ''u2'' 300, DeleteChat (js ''u0'')),
                       (env_of ''u3'' 400, DeleteChat (js ''u1''))]) anonymous_start) \<noteq> [] \<and>
   conversations (deleteChatById (env_of ''u1'' 200) (js ''u0'') anonymous_start) =
     [createNewConversation (env_of ''u1'' 200) 1] \<and>
   currentConversationId (deleteChatById (env_of ''u1'' 200) (js ''u0'') anonymous_start) =
     Some (js ''u1'')"
proof -
  have start: "conversations anonymous_start = [createNewConversation (env_of ''u0'' 100) 1]"
    by (simp add: anonymous_start_def loggedOutEffect_def initial_app_def Let_def)
  have ident: "conv_id (createNewConversation (env_of ''u0'' 100) 1) = js ''u0''"
    "conv_id (createNewConversation (env_of ''u1'' 200) 1) = js ''u1''"
    by (simp_all add: createNewConversation_def env_of_def)
  from start have nonempty: "conversations anonymous_start \<noteq> []"
    by simp
  note inst = store_never_empty
      [of anonymous_start
        "[(env_of ''u1'' 200, NewChat), (env_of ''u2'' 300, DeleteChat (js ''u0'')),
          (env_of ''u3'' 400, DeleteChat (js ''u1''))]"
        "env_of ''u0'' 100" "createNewConversation (env_of ''u0'' 100) 1" "env_of ''u1'' 200"]
  from inst nonempty have run:
    "conversations
       (run_ops (take 2 [(env_of ''u1'' 200, NewChat), (env_of ''u2'' 300, DeleteChat (js ''u0'')),
                         (env_of ''u3'' 400, DeleteChat (js ''u1''))]) anonymous_start) \<noteq> []"
    by blast
  from inst start ident have del:
    "conversations (deleteChatById (env_of ''u1'' 200) (js ''u0'') anonymous_start) =
       [createNewConversation (env_of ''u1'' 200) 1] \<and>
     currentConversationId (deleteChatById (env_of ''u1'' 200) (js ''u0'') anonymous_start) =
       Some (js ''u1'')"
    by simp
  from start nonempty run del show ?thesis
    by blast
qed

section \<open>Default titles\<close>

lemma run_ops_snoc: "run_ops (ops @ [x]) s = store_step (run_ops ops s) x"
  by (simp add: run_ops_def)

lemma length_new_chats:
  "length (conversations (run_ops (map (\<lambda>e. (e, NewChat)) es) s)) =
     length (conversations s) + length es"
  by (induction es rule: rev_induct)
     (simp_all add: run_ops_snoc conversations_handleNewChat, simp add: run_ops_def)

lemma new_chats_titles:
  "map conv_title (conversations (run_ops (map (\<lambda>e. (e, NewChat)) es) s)) =
     map conv_title (conversations s) @
     map (\<lambda>k. js ''New Chat '' @ string_of_nat (length (conversations s) + 1 + k))
       [0 ..< length es]"
proof (induction es rule: rev_induct)
  case Nil
  show ?case by (simp add: run_ops_def)
next
  case (snoc e es)
  show ?case
    by (simp add: run_ops_snoc conversations_handleNewChat snoc.IH length_new_chats
        createNewConversation_def)
qed

text \<open>
  C8, as amended: a conversation created with the new-chat button is titled
  \<open>New Chat N\<close> where \<open>N\<close> is one more than the number of conversations the store
  holds at that moment. In a session without deletions, which starts with the default
  conversation of the first effect, the k-th conversation created is therefore titled
  \<open>New Chat k\<close>.
\<close>

theorem new_chat_title:
  "conv_title (last (conversations (handleNewChat e s))) =
     js ''New Chat '' @ string_of_nat (length (conversations s) + 1) \<and>
   map conv_title
     (conversations (run_ops (map (\<lambda>e. (e, NewChat)) es) (loggedOutEffect e0 initial_app))) =
     map (\<lambda>k. js ''New Chat '' @ string_of_nat (Suc k)) [0 ..< Suc (length es)]"
proof
  show "conv_title (last (conversations (handleNewChat e s))) =
     js ''New Chat '' @ string_of_nat (length (conversations s) + 1)"
    by (simp add: conversations_handleNewChat createNewConversation_def)
next
  have start: "conversations (loggedOutEffect e0 initial_app) = [createNewConversation e0 1]"
    by (simp add: loggedOutEffect_def initial_app_def Let_def)
  show "map conv_title
     (conversations (run_ops (map (\<lambda>e. (e, NewChat)) es) (loggedOutEffect e0 initial_app))) =
     map (\<lambda>k. js ''New Chat '' @ string_of_nat (Suc k)) [0 ..< Suc (length es)]"
    by (simp only: new_chats_titles start map_upt_Suc)
       (simp add: createNewConversation_def)
qed

text \<open>
  C8 as stated fails after a deletion: in the session that creates \<open>u0\<close> and \<open>u1\<close>,
  deletes \<open>u1\<close> and creates \<open>u3\<close>, the third conversation created is titled
  \<open>New Chat 2\<close>, not \<open>New Chat 3\<close>.
\<close>

theorem new_chat_title_counterexample:
  "map conv_id (conversations recreated_session) = [js ''u0'', js ''u3''] \<and>
   map conv_title (conversations recreated_session) = [js ''New Chat 1'', js ''New Chat 2''] \<and>
   js ''New Chat 2'' \<noteq> js ''New Chat 3''"
  by (simp add: recreated_session_def run_ops_def anonymous_start_def loggedOutEffect_def
      initial_app_def handleNewChat_def deleteChatById_def saveConversationToFirestore_def
      createNewConversation_def env_of_def js_def Let_def string_of_nat.simps)

section \<open>Renaming\<close>

lemma dropWhile_all_iff:
  "(\<forall>x\<in>set (dropWhile P s). P x) \<longleftrightarrow> (\<forall>x\<in>set s. P x)"
  by (induction s) auto

lemma trim_Nil_iff: "trim s = [] \<longleftrightarrow> (\<forall>u\<in>set s. is_trim_space u)"
  by (simp add: trim_def dropWhile_all_iff)

lemma trim_unchanged:
  assumes "t \<noteq> []" "\<not> is_trim_space (hd t)" "\<not> is_trim_space (last t)"
  shows "trim t = t"
proof -
  from assms(1,2) have "dropWhile is_trim_space t = t"
    by (cases t) simp_all
  moreover from assms(1,3) have "\<not> is_trim_space (hd (rev t))"
    by (simp add: hd_rev)
  with assms(1) have "dropWhile is_trim_space (rev t) = rev t"
    by (cases "rev t") simp_all
  ultimately show ?thesis
    by (simp add: trim_def)
qed

text \<open>
  C7, as amended: a cancelled prompt and an empty or all-whitespace title leave the
  state as it is; a title with a character that is not whitespace replaces the title of
  the conversation by the proposed title with the whitespace at its two ends removed
  (which is the proposed title itself when it neither starts nor ends with whitespace),
  and changes no other conversation.
\<close>

theorem handleRenameChat_effect:
  "handleRenameChat None conv s = s \<and>
   ((\<forall>u \<in> set newTitle. is_trim_space u) \<longrightarrow> handleRenameChat (Some newTitle) conv s = s) \<and>
   ((\<exists>u \<in> set newTitle. \<not> is_trim_space u) \<longrightarrow>
      conversations (handleRenameChat (Some newTitle) conv s) =
        map (\<lambda>c. if conv_id c = conv_id conv then c\<lparr>conv_title := trim newTitle\<rparr> else c)
          (conversations s) \<and>
      (\<forall>c \<in> set (conversations (handleRenameChat (Some newTitle) conv s)).
         conv_id c = conv_id conv \<longrightarrow> conv_title c = trim newTitle) \<and>
      (\<not> is_trim_space (hd newTitle) \<and> \<not> is_trim_space (last newTitle) \<longrightarrow>
         trim newTitle = newTitle))"
proof (intro conjI impI)
  show "handleRenameChat None conv s = s"
    by (simp add: handleRenameChat_def)
next
  assume "\<forall>u \<in> set newTitle. is_trim_space u"
  then have "trim newTitle = []"
    by (simp add: trim_Nil_iff)
  then show "handleRenameChat (Some newTitle) conv s = s"
    by (simp add: handleRenameChat_def)
next
  assume ex: "\<exists>u \<in> set newTitle. \<not> is_trim_space u"
  then have ne: "newTitle \<noteq> []" "trim newTitle \<noteq> []"
    by (auto simp: trim_Nil_iff)
  then show convs: "conversations (handleRenameChat (Some newTitle) conv s) =
        map (\<lambda>c. if conv_id c = conv_id conv then c\<lparr>conv_title := trim newTitle\<rparr> else c)
          (conversations s)"
    by (simp add: handleRenameChat_def Let_def)
  show "\<forall>c \<in> set (conversations (handleRenameChat (Some newTitle) conv s)).
         conv_id c = conv_id conv \<longrightarrow> conv_title c = trim newTitle"
    unfolding convs by auto
  assume "\<not> is_trim_space (hd newTitle) \<and> \<not> is_trim_space (last newTitle)"
  with ne(1) show "trim newTitle = newTitle"
    by (simp add: trim_unchanged)
qed

theorem handleRenameChat_effect_witness:
  "list_all is_trim_space (js ''  '') \<and>
   handleRenameChat (Some (js ''  '')) (createNewConversation (env_of ''u0'' 100) 1) anonymous_start =
     anonymous_start \<and>
   (\<exists>u \<in> set (js '' Trip plan ''). \<not> is_trim_space u) \<and>
   map conv_title (conversations
     (handleRenameChat (Some (js '' Trip plan '')) (createNewConversation (env_of ''u0'' 100) 1)
        anonymous_start)) = [js ''Trip plan''] \<and>
   \<not> is_trim_space (hd (js ''Trip'')) \<and> \<not> is_trim_space (last (js ''Trip'')) \<and>
   trim (js ''Trip'') = js ''Trip''"
proof -
  note blank = handleRenameChat_effect
    [of "createNewConversation (env_of ''u0'' 100) 1" anonymous_start "js ''  ''"]
  note padded = handleRenameChat_effect
    [of "createNewConversation (env_of ''u0'' 100) 1" anonymous_start "js '' Trip plan ''"]
  note plain = handleRenameChat_effect
    [of "createNewConversation (env_of ''u0'' 100) 1" anonymous_start "js ''Trip''"]
  have b: "\<forall>u \<in> set (js ''  ''). is_trim_space u"
    by (simp add: js_def is_trim_space_def)
  have p: "\<exists>u \<in> set (js '' Trip plan ''). \<not> is_trim_space u"
    by (simp add: js_def is_trim_space_def)
  have t: "trim (js '' Trip plan '') = js ''Trip plan''"
    by (simp add: trim_def js_def is_trim_space_def)
  have q: "\<exists>u \<in> set (js ''Trip''). \<not> is_trim_space u"
    "\<not> is_trim_space (hd (js ''Trip''))" "\<not> is_trim_space (last (js ''Trip''))"
    by (simp_all add: js_def is_trim_space_def)
  have start: "conversations anonymous_start = [createNewConversation (env_of ''u0'' 100) 1]"
    by (simp add: anonymous_start_def loggedOutEffect_def initial_app_def Let_def)
  from blank b have 1: "handleRenameChat (Some (js ''  ''))
      (createNewConversation (env_of ''u0'' 100) 1) anonymous_start = anonymous_start"
    by blast
  from padded p have "conversations (handleRenameChat (Some (js '' Trip plan ''))
      (createNewConversation (env_of ''u0'' 100) 1) anonymous_start) =
      map (\<lambda>c. if conv_id c = conv_id (createNewConversation (env_of ''u0'' 100) 1)
        then c\<lparr>conv_title := trim (js '' Trip plan '')\<rparr> else c) (conversations anonymous_start)"
    by blast
  then have 2: "map conv_title (conversations (handleRenameChat (Some (js '' Trip plan ''))
      (createNewConversation (env_of ''u0'' 100) 1) anonymous_start)) = [js ''Trip plan'']"
    by (simp add: start t)
  from plain q have 3: "trim (js ''Trip'') = js ''Trip''"
    by blast
  from b have "list_all is_trim_space (js ''  '')"
    by (simp only: list_all_iff)
  with 1 p 2 q(2,3) 3 show ?thesis
    by blast
qed

text \<open>
  C7 as stated fails for a title with whitespace around it: renaming to \<open>" a"\<close> sets
  the title \<open>"a"\<close>, which is not the proposed title.
\<close>

theorem handleRenameChat_counterexample:
  "(\<exists>u \<in> set (js '' a''). \<not> is_trim_space u) \<and>
   map conv_title (conversations
     (handleRenameChat (Some (js '' a'')) (createNewConversation (env_of ''u0'' 100) 1)
        anonymous_start)) = [js ''a''] \<and>
   js ''a'' \<noteq> js '' a''"
  by (simp add: handleRenameChat_def anonymous_start_def loggedOutEffect_def initial_app_def
      saveConversationToFirestore_def createNewConversation_def env_of_def Let_def
      trim_def js_def is_trim_space_def)

section \<open>Mutating the messages of the current conversation\<close>

lemma find_conv_id:
  "find (\<lambda>c. conv_id c = i) cs = Some cc \<Longrightarrow> conv_id cc = i"
  by (induction cs) (auto split: if_splits)

lemma conversations_updateMessagesOf:
  "conversations (updateMessagesOf u (Some cc) f s) =
     map (\<lambda>c. if conv_id c = conv_id cc then c\<lparr>conv_messages := f (conv_messages c)\<rparr> else c)
       (conversations s)"
  by (simp add: updateMessagesOf_def Let_def split: option.splits)

text \<open>
  C6: the operation names a conversation by the id of the \<open>currentConversation\<close> it
  captured. For every such id and every transform it applies the transform to the
  message sequence of each conversation of the store with that id when one is present,
  changes nothing at all when no conversation of the store has that id (and when there
  is no current conversation), and leaves every conversation with another id as it is,
  at its place in the store.
\<close>

theorem updateCurrentConversationMessages_named:
  "updateCurrentConversationMessages f s =
     updateMessagesOf (user s) (currentConversation s) f s \<and>
   conversations (updateMessagesOf u (Some cc) f s) =
     map (\<lambda>c. if conv_id c = conv_id cc then c\<lparr>conv_messages := f (conv_messages c)\<rparr> else c)
       (conversations s) \<and>
   (\<forall>i < length (conversations s).
      conv_id (conversations s ! i) = conv_id cc \<longrightarrow>
      conversations (updateMessagesOf u (Some cc) f s) ! i =
        (conversations s ! i)\<lparr>conv_messages := f (conv_messages (conversations s ! i))\<rparr>) \<and>
   (\<forall>i < length (conversations s).
      conv_id (conversations s ! i) \<noteq> conv_id cc \<longrightarrow>
      conversations (updateMessagesOf u (Some cc) f s) ! i = conversations s ! i) \<and>
   ((\<forall>c \<in> set (conversations s). conv_id c \<noteq> conv_id cc) \<longrightarrow>
      updateMessagesOf u (Some cc) f s = s) \<and>
   updateMessagesOf u None f s = s"
proof (intro conjI allI impI)
  show "updateCurrentConversationMessages f s =
      updateMessagesOf (user s) (currentConversation s) f s"
    by (simp add: updateCurrentConversationMessages_def)
next
  show "conversations (updateMessagesOf u (Some cc) f s) =
     map (\<lambda>c. if conv_id c = conv_id cc then c\<lparr>conv_messages := f (conv_messages c)\<rparr> else c)
       (conversations s)"
    by (rule conversations_updateMessagesOf)
next
  fix i
  assume "i < length (conversations s)" "conv_id (conversations s ! i) = conv_id cc"
  then show "conversations (updateMessagesOf u (Some cc) f s) ! i =
        (conversations s ! i)\<lparr>conv_messages := f (conv_messages (conversations s ! i))\<rparr>"
    by (simp add: conversations_updateMessagesOf)
next
  fix i
  assume "i < length (conversations s)" "conv_id (conversations s ! i) \<noteq> conv_id cc"
  then show "conversations (updateMessagesOf u (Some cc) f s) ! i = conversations s ! i"
    by (simp add: conversations_updateMessagesOf)
next
  assume absent: "\<forall>c \<in> set (conversations s). conv_id c \<noteq> conv_id cc"
  then have same: "map (\<lambda>c. if conv_id c = conv_id cc
                          then c\<lparr>conv_messages := f (conv_messages c)\<rparr> else c)
      (conversations s) = conversations s"
    by (induction "conversations s") (simp_all add: map_idI)
  from absent have "find (\<lambda>c. conv_id c = conv_id cc) (conversations s) = None"
    by (simp add: find_None_iff)
  then show "updateMessagesOf u (Some cc) f s = s"
    by (simp add: updateMessagesOf_def same Let_def split: option.splits)
next
  show "updateMessagesOf u None f s = s"
    by (simp add: updateMessagesOf_def)
qed

theorem updateCurrentConversationMessages_named_witness:
  "map conv_id (conversations two_chats) = [js ''u0'', js ''u1''] \<and>
   map conv_messages
     (conversations (updateMessagesOf None (Some (createNewConversation (env_of ''u1'' 200) 2))
        append_hello two_chats)) = [ [], [hello] ] \<and>
   list_all (\<lambda>c. conv_id c \<noteq> js ''zz'') (conversations two_chats) \<and>
   updateMessagesOf None (Some (createNewConversation (env_of ''zz'' 300) 3)) append_hello two_chats =
     two_chats"
proof -
  have two: "conversations two_chats =
      [createNewConversation (env_of ''u0'' 100) 1, createNewConversation (env_of ''u1'' 200) 2]"
    by (simp add: two_chats_def anonymous_start_def loggedOutEffect_def initial_app_def
        handleNewChat_def createNewConversation_def env_of_def Let_def numeral_2_eq_2)
  note ids = createNewConversation_env_of
  note neq = example_ids_distinct
  have listed: "map conv_id (conversations two_chats) = [js ''u0'', js ''u1'']"
    by (simp add: two ids)
  note present = updateCurrentConversationMessages_named
    [of append_hello two_chats None "createNewConversation (env_of ''u1'' 200) 2"]
  note missing = updateCurrentConversationMessages_named
    [of append_hello two_chats None "createNewConversation (env_of ''zz'' 300) 3"]
  from present have "conversations
      (updateMessagesOf None (Some (createNewConversation (env_of ''u1'' 200) 2))
         append_hello two_chats) =
      map (\<lambda>c. if conv_id c = conv_id (createNewConversation (env_of ''u1'' 200) 2)
               then c\<lparr>conv_messages := append_hello (conv_messages c)\<rparr> else c)
        (conversations two_chats)"
    by blast
  then have applied: "map conv_messages
     (conversations (updateMessagesOf None (Some (createNewConversation (env_of ''u1'' 200) 2))
        append_hello two_chats)) = [ [], [hello] ]"
    by (simp add: two ids neq append_hello_def)
  have absent: "\<forall>c \<in> set (conversations two_chats).
      conv_id c \<noteq> conv_id (createNewConversation (env_of ''zz'' 300) 3)"
    using neq by (simp add: two ids) 
  with missing have noop:
    "updateMessagesOf None (Some (createNewConversation (env_of ''zz'' 300) 3)) append_hello
       two_chats = two_chats"
    by blast
  from absent have "list_all (\<lambda>c. conv_id c \<noteq> js ''zz'') (conversations two_chats)"
    by (simp add: list_all_iff ids)
  with listed applied noop show ?thesis
    by blast
qed

section \<open>Remote snapshots\<close>

text \<open>
  C4: a snapshot with at least one conversation replaces the local collection by the
  conversations of the snapshot, in their order; the active id stays what it was when
  a conversation of the snapshot has it, and becomes the id of the first conversation
  of the snapshot otherwise.
\<close>

theorem onSnapshot_replace:
  assumes "snapshot \<noteq> []"
  shows "conversations (onSnapshot u e snapshot s) = snapshot \<and>
         currentConversationId (onSnapshot u e snapshot s) =
           (if currentConversationId s \<in> Some ` conv_id ` set snapshot
            then currentConversationId s else Some (conv_id (hd snapshot)))"
  using assms
  by (cases snapshot)
     (auto simp: onSnapshot_def Let_def find_None_iff split: option.splits dest: find_Some_iff[THEN iffD1])

theorem onSnapshot_replace_witness:
  "conversations two_chats \<noteq> [] \<and>
   conversations (onSnapshot alice (env_of ''u9'' 900) (conversations two_chats)
      (anonymous_start\<lparr>user := Some alice\<rparr>)) = conversations two_chats \<and>
   currentConversationId (onSnapshot alice (env_of ''u9'' 900) (conversations two_chats)
      (anonymous_start\<lparr>user := Some alice\<rparr>)) = Some (js ''u0'') \<and>
   currentConversationId (onSnapshot alice (env_of ''u9'' 900) (conversations two_chats)
      stale_selection) = Some (js ''u0'') \<and>
   currentConversationId (onSnapshot alice (env_of ''u9'' 900) (conversations two_chats)
      two_chats) = Some (js ''u1'')"
proof -
  have two: "conversations two_chats =
      [createNewConversation (env_of ''u0'' 100) 1, createNewConversation (env_of ''u1'' 200) 2]"
    "currentConversationId two_chats = Some (js ''u1'')"
    by (simp_all add: two_chats_def anonymous_start_def loggedOutEffect_def initial_app_def
        handleNewChat_def createNewConversation_def env_of_def Let_def numeral_2_eq_2)
  note ids = createNewConversation_env_of
  have cur: "currentConversationId (anonymous_start\<lparr>user := Some alice\<rparr>) = Some (js ''u0'')"
    "currentConversationId stale_selection = Some (js ''zz'')"
    by (simp_all add: stale_selection_def anonymous_start_def loggedOutEffect_def initial_app_def
        createNewConversation_def env_of_def Let_def)
  note neq = example_ids_distinct
  have ne: "conversations two_chats \<noteq> []"
    by (simp add: two)
  note inst = onSnapshot_replace [OF ne, of alice "env_of ''u9'' 900"]
  from inst [of "anonymous_start\<lparr>user := Some alice\<rparr>"] inst [of stale_selection]
    inst [of two_chats] ne
  show ?thesis
    by (simp add: two ids cur neq)
qed

text \<open>
  C5: an empty snapshot installs one fresh default conversation (index 1) as the only
  local conversation, makes it active, and requests exactly one remote write, of that
  conversation, for the user of the subscription.
\<close>

theorem onSnapshot_empty:
  "conversations (onSnapshot u e [] s) = [createNewConversation e 1] \<and>
   currentConversationId (onSnapshot u e [] s) = Some (conv_id (createNewConversation e 1)) \<and>
   firestore (onSnapshot u e [] s) =
     firestore s @
       [SetDoc (uid u) (conv_id (createNewConversation e 1)) (createNewConversation e 1)] \<and>
   conv_title (createNewConversation e 1) = js ''New Chat 1'' \<and>
   conv_messages (createNewConversation e 1) = []"
  by (simp add: onSnapshot_def Let_def saveConversationToFirestore_def createNewConversation_def
      js_def string_of_nat.simps)

section \<open>Audio round trip\<close>

lemma distinct_alphabet: "distinct base64_alphabet"
  by (simp add: base64_alphabet_def js_def)

lemma length_alphabet: "length base64_alphabet = 64"
  by (simp add: base64_alphabet_def js_def)

lemma alphabet_plain:
  "\<forall>u \<in> set base64_alphabet. \<not> is_ascii_whitespace u \<and> u \<noteq> 0x3D"
  by (simp add: base64_alphabet_def js_def is_ascii_whitespace_def)

lemma index_of_nth:
  "distinct xs \<Longrightarrow> n < length xs \<Longrightarrow> index_of (xs ! n) xs = Some n"
proof (induction xs arbitrary: n)
  case Nil
  then show ?case by simp
next
  case (Cons x xs)
  then show ?case
    by (cases n) auto
qed

lemma base64_value_char: "n < 64 \<Longrightarrow> base64_value (base64_char n) = Some n"
  by (simp add: base64_value_def base64_char_def index_of_nth distinct_alphabet length_alphabet)

lemma base64_char_plain:
  assumes "n < 64"
  shows "\<not> is_ascii_whitespace (base64_char n)" "base64_char n \<noteq> 0x3D"
proof -
  from assms have "base64_char n \<in> set base64_alphabet"
    by (simp add: base64_char_def length_alphabet)
  with alphabet_plain show "\<not> is_ascii_whitespace (base64_char n)" "base64_char n \<noteq> 0x3D"
    by blast+
qed


lemma remove_padding_4:
  "x4 \<noteq> 0x3D \<Longrightarrow> remove_padding [x1, x2, x3, x4] = [x1, x2, x3, x4]"
  "x3 \<noteq> 0x3D \<Longrightarrow> remove_padding [x1, x2, x3, 0x3D] = [x1, x2, x3]"
  "remove_padding [x1, x2, 0x3D, 0x3D] = [x1, x2]"
  by (simp_all add: remove_padding_def)

lemma remove_padding_Cons4:
  assumes "ys \<noteq> []" and "length ys mod 4 = 0"
  shows "remove_padding (x1 # x2 # x3 # x4 # ys) = x1 # x2 # x3 # x4 # remove_padding ys"
proof -
  from assms(1) have "length ys \<noteq> 0"
    by simp
  with assms(2) have "2 \<le> length (rev ys)"
    by (simp only: length_rev) presburger
  then obtain c1 c2 r where r: "rev ys = c1 # c2 # r"
    by (cases "rev ys"; cases "tl (rev ys)") auto
  then have ys: "ys = rev r @ [c2, c1]"
    by (simp add: rev_swap)
  from assms(2) have len: "length (x1 # x2 # x3 # x4 # ys) mod 4 = 0"
    by simp
  have revs: "rev (x1 # x2 # x3 # x4 # ys) = c1 # c2 # (r @ [x4, x3, x2, x1])"
    by (simp add: ys)
  have "remove_padding (x1 # x2 # x3 # x4 # ys) =
      (if c1 = 0x3D \<and> c2 = 0x3D then rev (r @ [x4, x3, x2, x1])
       else if c1 = 0x3D then rev (c2 # r @ [x4, x3, x2, x1])
       else x1 # x2 # x3 # x4 # ys)"
    by (simp only: remove_padding_def len revs if_True list.case simp_thms)
  moreover have "remove_padding ys =
      (if c1 = 0x3D \<and> c2 = 0x3D then rev r else if c1 = 0x3D then rev (c2 # r) else ys)"
    by (simp only: remove_padding_def assms(2) r if_True list.case simp_thms)
  ultimately show ?thesis
    by simp
qed

lemma sextets_bound:
  "x < 256 \<Longrightarrow> x div 4 < (64::nat)"
  "y < 256 \<Longrightarrow> x mod 4 * 16 + y div 16 < (64::nat)"
  "z < 256 \<Longrightarrow> y mod 16 * 4 + z div 64 < (64::nat)"
  "z mod 64 < (64::nat)"
  "x mod 4 * 16 < (64::nat)"
  "y mod 16 * 4 < (64::nat)"
proof -
  have small: "x mod 4 < 4" "y mod 16 < 16"
    by simp_all
  show "x < 256 \<Longrightarrow> x div 4 < 64"
    by simp
  show "x mod 4 * 16 + y div 16 < 64" if "y < 256"
  proof -
    from that have "y div 16 < 16" by simp
    with small show ?thesis by linarith
  qed
  show "y mod 16 * 4 + z div 64 < 64" if "z < 256"
  proof -
    from that have "z div 64 < 4" by simp
    with small show ?thesis by linarith
  qed
  show "z mod 64 < 64"
    by simp
  from small show "x mod 4 * 16 < 64" "y mod 16 * 4 < 64"
    by linarith+
qed

lemma octets_back:
  "y < 256 \<Longrightarrow> x div 4 * 4 + (x mod 4 * 16 + y div 16) div 16 = (x::nat)"
  "y < 256 \<Longrightarrow> z < 256 \<Longrightarrow>
     (x mod 4 * 16 + y div 16) mod 16 * 16 + (y mod 16 * 4 + z div 64) div 4 = (y::nat)"
  "z < 256 \<Longrightarrow> (y mod 16 * 4 + z div 64) mod 4 * 64 + z mod 64 = (z::nat)"
  "x div 4 * 4 + (x mod 4 * 16) div 16 = (x::nat)"
  "y < 256 \<Longrightarrow> (x mod 4 * 16 + y div 16) mod 16 * 16 + (y mod 16 * 4) div 4 = (y::nat)"
proof -
  have high: "(x mod 4 * 16 + y div 16) div 16 = x mod 4"
    and mid: "(x mod 4 * 16 + y div 16) mod 16 = y div 16" if "y < 256"
  proof -
    from that have "y div 16 < 16" by simp
    then show "(x mod 4 * 16 + y div 16) div 16 = x mod 4"
      "(x mod 4 * 16 + y div 16) mod 16 = y div 16"
      by simp_all
  qed
  have low: "(y mod 16 * 4 + z div 64) div 4 = y mod 16"
    and top: "(y mod 16 * 4 + z div 64) mod 4 = z div 64" if "z < 256"
  proof -
    from that have "z div 64 < 4" by simp
    then show "(y mod 16 * 4 + z div 64) div 4 = y mod 16"
      "(y mod 16 * 4 + z div 64) mod 4 = z div 64"
      by simp_all
  qed
  show "y < 256 \<Longrightarrow> x div 4 * 4 + (x mod 4 * 16 + y div 16) div 16 = x"
    by (simp add: high)
  show "y < 256 \<Longrightarrow> z < 256 \<Longrightarrow>
     (x mod 4 * 16 + y div 16) mod 16 * 16 + (y mod 16 * 4 + z div 64) div 4 = y"
    by (simp add: mid low)
  show "z < 256 \<Longrightarrow> (y mod 16 * 4 + z div 64) mod 4 * 64 + z mod 64 = z"
    by (simp add: top)
  show "x div 4 * 4 + (x mod 4 * 16) div 16 = x"
    by simp
  show "y < 256 \<Longrightarrow> (x mod 4 * 16 + y div 16) mod 16 * 16 + (y mod 16 * 4) div 4 = y"
    by (simp add: mid)
qed

lemma unat_octet: "unat (a :: 8 word) < 256"
  using unsigned_less [of a, where ?'a = nat] by simp

text \<open>The four characters of a full group, and the characters of the two short tails.\<close>

lemma base64_values_group:
  "base64_values
     (base64_char (unat (a :: 8 word) div 4) #
      base64_char (unat a mod 4 * 16 + unat (b :: 8 word) div 16) #
      base64_char (unat b mod 16 * 4 + unat (c :: 8 word) div 64) #
      base64_char (unat c mod 64) # us) =
   (case base64_values us of
      None \<Rightarrow> None
    | Some vs \<Rightarrow>
        Some (unat a div 4 # (unat a mod 4 * 16 + unat b div 16) #
              (unat b mod 16 * 4 + unat c div 64) # unat c mod 64 # vs))"
  by (simp only: base64_values.simps base64_value_char sextets_bound unat_octet option.case
      split: option.split) simp

lemma base64_values_tail2:
  "base64_values
     [base64_char (unat (a :: 8 word) div 4),
      base64_char (unat a mod 4 * 16 + unat (b :: 8 word) div 16),
      base64_char (unat b mod 16 * 4)] =
   Some [unat a div 4, unat a mod 4 * 16 + unat b div 16, unat b mod 16 * 4]"
  by (simp only: base64_values.simps base64_value_char sextets_bound unat_octet option.case)

lemma base64_values_tail1:
  "base64_values [base64_char (unat (a :: 8 word) div 4), base64_char (unat a mod 4 * 16)] =
   Some [unat a div 4, unat a mod 4 * 16]"
  by (simp only: base64_values.simps base64_value_char sextets_bound unat_octet option.case)

lemma decode_values_group:
  "decode_values
     (unat (a :: 8 word) div 4 # (unat a mod 4 * 16 + unat (b :: 8 word) div 16) #
      (unat b mod 16 * 4 + unat (c :: 8 word) div 64) # unat c mod 64 # vs) =
   a # b # c # decode_values vs"
  by (simp only: decode_values.simps octets_back unat_octet of_nat_unat ucast_id)

lemma decode_values_tail2:
  "decode_values
     [unat (a :: 8 word) div 4, unat a mod 4 * 16 + unat (b :: 8 word) div 16,
      unat b mod 16 * 4] = [a, b]"
  by (simp only: decode_values.simps octets_back unat_octet of_nat_unat ucast_id)

lemma decode_values_tail1:
  "decode_values [unat (a :: 8 word) div 4, unat a mod 4 * 16] = [a]"
  by (simp only: decode_values.simps octets_back unat_octet of_nat_unat ucast_id)

lemma equals_sign_plain: "\<not> is_ascii_whitespace 0x3D"
  by (simp add: is_ascii_whitespace_def)

lemma length_base64_encode: "length (base64_encode bs) mod 4 = 0"
  by (induction bs rule: base64_encode.induct) simp_all

lemma base64_encode_Nil_iff: "base64_encode bs = [] \<longleftrightarrow> bs = []"
  by (cases bs rule: base64_encode.cases) simp_all

lemma base64_encode_no_whitespace:
  "filter (\<lambda>u. \<not> is_ascii_whitespace u) (base64_encode bs) = base64_encode bs"
proof (induction bs rule: base64_encode.induct)
  case (1 a b c rest)
  then show ?case
    by (simp only: base64_encode.simps filter.simps base64_char_plain sextets_bound unat_octet
        if_True not_False_eq_True)
next
  case (2 a b)
  show ?case
    by (simp only: base64_encode.simps filter.simps base64_char_plain sextets_bound unat_octet
        equals_sign_plain if_True not_False_eq_True)
next
  case (3 a)
  show ?case
    by (simp only: base64_encode.simps filter.simps base64_char_plain sextets_bound unat_octet
        equals_sign_plain if_True not_False_eq_True)
next
  case 4
  show ?case by simp
qed

lemma base64_decode_encode:
  "\<exists>vs. base64_values (remove_padding (base64_encode bs)) = Some vs \<and>
        length (remove_padding (base64_encode bs)) mod 4 \<noteq> 1 \<and>
        decode_values vs = bs"
proof (induction bs rule: base64_encode.induct)
  case (1 a b c rest)
  then obtain vs where vs: "base64_values (remove_padding (base64_encode rest)) = Some vs"
    "length (remove_padding (base64_encode rest)) mod 4 \<noteq> 1" "decode_values vs = rest"
    by blast
  have last_plain: "base64_char (unat c mod 64) \<noteq> 0x3D"
    by (rule base64_char_plain) (rule sextets_bound)
  have body: "remove_padding (base64_encode (a # b # c # rest)) =
      base64_char (unat a div 4) #
      base64_char (unat a mod 4 * 16 + unat b div 16) #
      base64_char (unat b mod 16 * 4 + unat c div 64) #
      base64_char (unat c mod 64) # remove_padding (base64_encode rest)"
  proof (cases "rest = []")
    case True
    then show ?thesis
      by (simp only: base64_encode.simps remove_padding_4(1) [OF last_plain])
         (simp add: remove_padding_def)
  next
    case False
    then show ?thesis
      by (simp only: base64_encode.simps remove_padding_Cons4 base64_encode_Nil_iff
          length_base64_encode not_False_eq_True)
  qed
  have "base64_values (remove_padding (base64_encode (a # b # c # rest))) =
      Some (unat a div 4 # (unat a mod 4 * 16 + unat b div 16) #
              (unat b mod 16 * 4 + unat c div 64) # unat c mod 64 # vs)"
    by (simp only: body base64_values_group vs(1) option.case)
  moreover have "length (remove_padding (base64_encode (a # b # c # rest))) mod 4 \<noteq> 1"
    using vs(2) by (simp only: body) simp
  moreover have "decode_values (unat a div 4 # (unat a mod 4 * 16 + unat b div 16) #
              (unat b mod 16 * 4 + unat c div 64) # unat c mod 64 # vs) = a # b # c # rest"
    by (simp only: decode_values_group vs(3))
  ultimately show ?case
    by blast
next
  case (2 a b)
  have "base64_char (unat b mod 16 * 4) \<noteq> 0x3D"
    by (rule base64_char_plain) (rule sextets_bound)
  then have body: "remove_padding (base64_encode [a, b]) =
      [base64_char (unat a div 4), base64_char (unat a mod 4 * 16 + unat b div 16),
       base64_char (unat b mod 16 * 4)]"
    by (simp only: base64_encode.simps) (rule remove_padding_4)
  have "base64_values (remove_padding (base64_encode [a, b])) =
      Some [unat a div 4, unat a mod 4 * 16 + unat b div 16, unat b mod 16 * 4]"
    by (simp only: body base64_values_tail2)
  moreover have "length (remove_padding (base64_encode [a, b])) mod 4 \<noteq> 1"
    by (simp only: body) simp
  moreover have "decode_values
      [unat a div 4, unat a mod 4 * 16 + unat b div 16, unat b mod 16 * 4] = [a, b]"
    by (rule decode_values_tail2)
  ultimately show ?case
    by blast
next
  case (3 a)
  have body: "remove_padding (base64_encode [a]) =
      [base64_char (unat a div 4), base64_char (unat a mod 4 * 16)]"
    by (simp only: base64_encode.simps remove_padding_4)
  have "base64_values (remove_padding (base64_encode [a])) =
      Some [unat a div 4, unat a mod 4 * 16]"
    by (simp only: body base64_values_tail1)
  moreover have "length (remove_padding (base64_encode [a])) mod 4 \<noteq> 1"
    by (simp only: body) simp
  moreover have "decode_values [unat a div 4, unat a mod 4 * 16] = [a]"
    by (rule decode_values_tail1)
  ultimately show ?case
    by blast
next
  case 4
  show ?case
    by (simp add: remove_padding_def)
qed

lemma atob_base64_encode: "atob (base64_encode bs) = Some (map ucast bs)"
proof -
  from base64_decode_encode [of bs] obtain vs where
    "base64_values (remove_padding (base64_encode bs)) = Some vs"
    "length (remove_padding (base64_encode bs)) mod 4 \<noteq> 1" "decode_values vs = bs"
    by blast
  then show ?thesis
    by (simp add: atob_def base64_encode_no_whitespace Let_def)
qed



lemma fill_bytes_from:
  "length bytes = length binary \<Longrightarrow> i \<le> length binary \<Longrightarrow>
   fill_bytes binary i bytes = take i bytes @ map ucast (drop i binary)"
proof (induction binary i bytes rule: fill_bytes.induct)
  case (1 binary i bytes)
  show ?case
  proof (cases "i < length binary")
    case True
    with "1.prems" have "fill_bytes binary (i + 1) (bytes[i := ucast (binary ! i)]) =
        take (i + 1) (bytes[i := ucast (binary ! i)]) @ map ucast (drop (i + 1) binary)"
      by (intro "1.IH") simp_all
    moreover from True "1.prems" have "take (i + 1) (bytes[i := ucast (binary ! i)]) =
        take i bytes @ [ucast (binary ! i)]"
      by (simp add: take_Suc_conv_app_nth)
    moreover from True have "drop i binary = binary ! i # drop (i + 1) binary"
      by (simp add: Cons_nth_drop_Suc)
    ultimately show ?thesis
      using True by (subst fill_bytes.simps) simp
  next
    case False
    with "1.prems" show ?thesis
      by (subst fill_bytes.simps) simp
  qed
qed

lemma fill_bytes_all:
  "fill_bytes binary 0 (replicate (length binary) 0) = map ucast binary"
  by (simp add: fill_bytes_from)

lemma octet_of_code_unit: "ucast (ucast (b :: 8 word) :: 16 word) = b"
  by (rule bit_word_eqI) (auto simp add: bit_simps dest: bit_imp_le_length)

text \<open>
  C9: for every byte sequence, decoding its base64 encoding with the adapter succeeds
  and registers, under the returned URL, a blob of type \<open>audio/mpeg\<close> whose bytes are
  the original sequence.
\<close>

theorem audio_round_trip:
  "base64ToAudioUrl url (base64_encode bs) s =
     Some (url, s\<lparr>object_urls :=
                    (url, \<lparr>blob_bytes = bs, blob_type = js ''audio/mpeg''\<rparr>) # object_urls s\<rparr>) \<and>
   map_option (\<lambda>(handle, s'). map_option blob_bytes (map_of (object_urls s') handle))
     (base64ToAudioUrl url (base64_encode bs) s) = Some (Some bs)"
proof -
  have "fill_bytes (map ucast bs) 0 (replicate (length bs) 0) = map ucast (map ucast bs :: js_string)"
    using fill_bytes_all [of "map ucast bs"] by simp
  also have "\<dots> = bs"
    by (simp add: octet_of_code_unit comp_def)
  finally have "base64ToAudioUrl url (base64_encode bs) s =
     Some (url, s\<lparr>object_urls :=
                    (url, \<lparr>blob_bytes = bs, blob_type = js ''audio/mpeg''\<rparr>) # object_urls s\<rparr>)"
    by (simp add: base64ToAudioUrl_def atob_base64_encode fill_bytes_all Let_def)
  then show ?thesis
    by simp
qed

section \<open>Properties of the message exchange\<close>

lemma trim_Nil [simp]: "trim [] = []"
  by (simp add: trim_def)

lemma displayText_nonempty:
  "trim text \<noteq> [] \<or> file \<noteq> None \<Longrightarrow> displayText text file \<noteq> []"
  by (auto simp: displayText_def paperclip_def split: option.splits)

lemma alert_simps [simp]:
  "conversations (alert m s) = conversations s"
  "currentConversationId (alert m s) = currentConversationId s"
  "alerts (alert m s) = alerts s @ [m]"
  by (simp_all add: alert_def)

lemma updateMessagesOf_simps [simp]:
  "currentConversationId (updateMessagesOf u cur f s) = currentConversationId s"
  "alerts (updateMessagesOf u cur f s) = alerts s"
  "user (updateMessagesOf u cur f s) = user s"
  "selectedFile (updateMessagesOf u cur f s) = selectedFile s"
  by (simp_all add: updateMessagesOf_def saveConversationToFirestore_def Let_def
      split: option.splits)

lemma find_map_conv_id:
  "(\<And>c. conv_id (g c) = conv_id c) \<Longrightarrow>
   find (\<lambda>c. conv_id c = i) (map g cs) = map_option g (find (\<lambda>c. conv_id c = i) cs)"
  by (induction cs) simp_all

lemma currentConversation_map:
  assumes "conversations s' = map g (conversations s)"
    and "currentConversationId s' = currentConversationId s"
    and "\<And>c. conv_id (g c) = conv_id c"
  shows "currentConversation s' = map_option g (currentConversation s)"
  using assms
  by (cases "conversations s")
     (auto simp: currentConversation_def find_map_conv_id split: option.splits)

lemma messages_map:
  assumes "conversations s' =
      map (\<lambda>c. if conv_id c = conv_id cc then c\<lparr>conv_messages := conv_messages c @ new\<rparr> else c)
        (conversations s)"
    and "currentConversationId s' = currentConversationId s"
    and "currentConversation s = Some cc"
  shows "messages s' = messages s @ new"
proof -
  have "currentConversation s' =
      map_option (\<lambda>c. if conv_id c = conv_id cc then c\<lparr>conv_messages := conv_messages c @ new\<rparr> else c)
        (currentConversation s)"
    using assms(1,2) by (rule currentConversation_map) simp
  with assms(3) show ?thesis
    by (simp add: messages_def)
qed

text \<open>The state in which the request is made, once the input has passed validation.\<close>

lemma handleSend_valid:
  assumes "trim text \<noteq> [] \<or> selectedFile s \<noteq> None"
    and "text = (case textToSend of None \<Rightarrow> inputText s | Some t \<Rightarrow> t)"
    and "currentConversation s = Some cc"
  shows "handleSend x textToSend s =
    (tryExchange x (user s) cc (selectedFile s)
       ((updateMessagesOf (user s) (Some cc)
           (\<lambda>msgs. msgs @
              [\<lparr>msg_role = User, msg_text = displayText text (selectedFile s),
                msg_audioUrl = None, msg_timestamp = sent_at x\<rparr>]) s)
        \<lparr>loading := True, inputText := []\<rparr>))\<lparr>loading := False\<rparr>"
proof -
  from assms(1) have shown: "displayText text (selectedFile s) \<noteq> []"
    by (rule displayText_nonempty)
  show ?thesis
  proof (cases "trim text = []")
    case True
    with assms(1) obtain f where "selectedFile s = Some f"
      by blast
    with shown show ?thesis
      unfolding handleSend_def assms(2) [symmetric] Let_def
      by (simp add: assms(3))
  next
    case False
    with shown show ?thesis
      unfolding handleSend_def assms(2) [symmetric] Let_def
      by (simp add: assms(3))
  qed
qed

lemma tryExchange_failed:
  assumes "exchange_failed x"
  shows "tryExchange x u cc file s =
           alert
             (case fetched x of
                Rejected msg \<Rightarrow> js ''Network error: '' @ msg
              | Response status body \<Rightarrow>
                  if \<not> response_ok status
                  then js ''Server error '' @ string_of_nat status @ js '': '' @
                       (case body of
                          Unreadable _ \<Rightarrow> []
                        | Json errData \<Rightarrow>
                            (case json_error errData of None \<Rightarrow> [] | Some detail \<Rightarrow> detail))
                  else (case body of
                          Unreadable msg \<Rightarrow> js ''Network error: '' @ msg
                        | Json data \<Rightarrow> js ''Server did not return audioBase64 / replyText''))
             (case fetched x of
                Rejected _ \<Rightarrow> s
              | Response _ _ \<Rightarrow> if file \<noteq> None then s\<lparr>selectedFile := None\<rparr> else s)"
proof (cases "fetched x")
  case (Rejected msg)
  then show ?thesis
    by (simp add: tryExchange_def)
next
  case (Response status body)
  show ?thesis
  proof (cases "response_ok status")
    case False
    with Response show ?thesis
      by (simp add: tryExchange_def Let_def)
  next
    case True
    show ?thesis
    proof (cases body)
      case (Unreadable msg)
      with Response True show ?thesis
        by (simp add: tryExchange_def Let_def)
    next
      case (Json data)
      with Response True assms
      have "\<not> truthy (json_replyText data) \<or> \<not> truthy (json_audioBase64 data)"
        by (simp add: exchange_failed_def)
      with Response True Json show ?thesis
        by (auto simp: tryExchange_def Let_def)
    qed
  qed
qed

lemma failure_text_nonempty:
  "(case fetched x of
      Rejected msg \<Rightarrow> js ''Network error: '' @ msg
    | Response status body \<Rightarrow>
        if \<not> response_ok status
        then js ''Server error '' @ string_of_nat status @ js '': '' @
             (case body of
                Unreadable _ \<Rightarrow> []
              | Json errData \<Rightarrow>
                  (case json_error errData of None \<Rightarrow> [] | Some detail \<Rightarrow> detail))
        else (case body of
                Unreadable msg \<Rightarrow> js ''Network error: '' @ msg
              | Json data \<Rightarrow> js ''Server did not return audioBase64 / replyText'')) \<noteq> []"
  by (simp add: js_def split: fetch_result.splits response_body.splits)

lemma tryExchange_success:
  assumes "fetched x = Response status (Json data)" and "response_ok status"
    and "json_replyText data = Some replyText" and "replyText \<noteq> []"
    and "json_audioBase64 data = Some audio" and "audio \<noteq> []"
    and "atob audio \<noteq> None"
  shows "\<exists>s'. tryExchange x u cc file s =
           updateMessagesOf u (Some cc)
             (\<lambda>msgs. msgs @ [\<lparr>msg_role = Ai, msg_text = replyText,
                                msg_audioUrl = Some (object_url x),
                                msg_timestamp = replied_at x\<rparr>]) s' \<and>
           conversations s' = conversations s \<and>
           currentConversationId s' = currentConversationId s \<and> alerts s' = alerts s"
proof -
  from assms(7) obtain binary where "atob audio = Some binary"
    by blast
  with assms(1-6) show ?thesis
    by (auto simp: tryExchange_def base64ToAudioUrl_def truthy_def Let_def)
qed

lemma anonymous_start_current:
  "currentConversation anonymous_start = Some (createNewConversation (env_of ''u0'' 100) 1)"
  "conversations anonymous_start = [createNewConversation (env_of ''u0'' 100) 1]"
  "messages anonymous_start = []"
  "selectedFile anonymous_start = None"
  "alerts anonymous_start = []"
  by (simp_all add: messages_def currentConversation_def anonymous_start_def loggedOutEffect_def
      initial_app_def createNewConversation_def Let_def)

lemma hello_shown:
  "trim (js ''hello'') \<noteq> []" "displayText (js ''hello'') None = js ''hello''"
  by (simp_all add: displayText_def trim_def js_def is_trim_space_def)

text \<open>
  C2, as amended: when the text has a character that is not whitespace or a file is
  selected, a conversation is on display, the response has a success status and a body
  with a non-empty \<open>replyText\<close> and a non-empty \<open>audioBase64\<close>, and the audio payload
  is base64 that \<open>atob\<close> decodes, then the messages of the conversation on display grow
  by exactly two, first the \<open>user\<close> message with the display text, then the \<open>ai\<close>
  message with the reply text and the audio URL; the earlier messages and all
  conversations of another id are unchanged, and no error is shown.
\<close>

theorem handleSend_success:
  assumes "trim text \<noteq> [] \<or> selectedFile s \<noteq> None"
    and "text = (case textToSend of None \<Rightarrow> inputText s | Some t \<Rightarrow> t)"
    and "currentConversation s = Some cc"
    and "fetched x = Response status (Json data)" and "response_ok status"
    and "json_replyText data = Some replyText" and "replyText \<noteq> []"
    and "json_audioBase64 data = Some audio" and "audio \<noteq> []"
    and "atob audio \<noteq> None"
  shows "messages (handleSend x textToSend s) =
           messages s @
             [\<lparr>msg_role = User, msg_text = displayText text (selectedFile s),
               msg_audioUrl = None, msg_timestamp = sent_at x\<rparr>,
              \<lparr>msg_role = Ai, msg_text = replyText, msg_audioUrl = Some (object_url x),
               msg_timestamp = replied_at x\<rparr>] \<and>
         conversations (handleSend x textToSend s) =
           map (\<lambda>c. if conv_id c = conv_id cc
                    then c\<lparr>conv_messages := conv_messages c @
                           [\<lparr>msg_role = User, msg_text = displayText text (selectedFile s),
                             msg_audioUrl = None, msg_timestamp = sent_at x\<rparr>,
                            \<lparr>msg_role = Ai, msg_text = replyText,
                             msg_audioUrl = Some (object_url x),
                             msg_timestamp = replied_at x\<rparr>]\<rparr>
                    else c) (conversations s) \<and>
         alerts (handleSend x textToSend s) = alerts s"
proof -
  let ?sent = "\<lparr>msg_role = User, msg_text = displayText text (selectedFile s),
                 msg_audioUrl = None, msg_timestamp = sent_at x\<rparr>"
  let ?answer = "\<lparr>msg_role = Ai, msg_text = replyText, msg_audioUrl = Some (object_url x),
                   msg_timestamp = replied_at x\<rparr>"
  let ?s2 = "(updateMessagesOf (user s) (Some cc) (\<lambda>msgs. msgs @ [?sent]) s)
               \<lparr>loading := True, inputText := []\<rparr>"
  from tryExchange_success [OF assms(4-10), of "user s" cc "selectedFile s" ?s2]
  obtain s' where answered: "tryExchange x (user s) cc (selectedFile s) ?s2 =
      updateMessagesOf (user s) (Some cc) (\<lambda>msgs. msgs @ [?answer]) s'"
    "conversations s' = conversations ?s2" "currentConversationId s' = currentConversationId ?s2"
    "alerts s' = alerts ?s2"
    by blast
  have result: "handleSend x textToSend s =
      (updateMessagesOf (user s) (Some cc) (\<lambda>msgs. msgs @ [?answer]) s')\<lparr>loading := False\<rparr>"
    by (simp only: handleSend_valid [OF assms(1-3)] answered(1))
  have convs: "conversations (handleSend x textToSend s) =
      map (\<lambda>c. if conv_id c = conv_id cc
               then c\<lparr>conv_messages := conv_messages c @ [?sent, ?answer]\<rparr> else c)
        (conversations s)"
    by (simp add: result answered(2) conversations_updateMessagesOf)
  have sel: "currentConversationId (handleSend x textToSend s) = currentConversationId s"
    by (simp add: result answered(3))
  have "messages (handleSend x textToSend s) = messages s @ [?sent, ?answer]"
    using convs sel assms(3) by (rule messages_map)
  moreover have "alerts (handleSend x textToSend s) = alerts s"
    by (simp add: result answered(4))
  ultimately show ?thesis
    using convs by blast
qed

theorem handleSend_success_witness:
  "trim (js ''hello'') \<noteq> [] \<and>
   currentConversation anonymous_start = Some (createNewConversation (env_of ''u0'' 100) 1) \<and>
   fetched good_reply = Response 200
     (Json \<lparr>json_replyText = Some (js ''hi there''),
            json_audioBase64 = Some (base64_encode [73, 68, 51]), json_error = None\<rparr>) \<and>
   response_ok 200 \<and> js ''hi there'' \<noteq> [] \<and> base64_encode [73, 68, 51] \<noteq> [] \<and>
   atob (base64_encode [73, 68, 51]) \<noteq> None \<and>
   messages anonymous_start = [] \<and>
   messages (handleSend good_reply (Some (js ''hello'')) anonymous_start) =
     [\<lparr>msg_role = User, msg_text = js ''hello'', msg_audioUrl = None, msg_timestamp = 500\<rparr>,
      \<lparr>msg_role = Ai, msg_text = js ''hi there'', msg_audioUrl = Some (js ''blob:1''),
       msg_timestamp = 600\<rparr>]"
proof -
  have resp: "fetched good_reply = Response 200
     (Json \<lparr>json_replyText = Some (js ''hi there''),
            json_audioBase64 = Some (base64_encode [73, 68, 51]), json_error = None\<rparr>)"
    "sent_at good_reply = 500" "replied_at good_reply = 600" "object_url good_reply = js ''blob:1''"
    by (simp_all add: good_reply_def)
  have ok: "response_ok 200"
    by (simp add: response_ok_def)
  have nonempty: "js ''hi there'' \<noteq> []" "base64_encode [73, 68, 51] \<noteq> []"
    by (simp_all add: js_def)
  have audio: "atob (base64_encode [73, 68, 51]) \<noteq> None"
    by (simp only: atob_base64_encode) simp
  have valid: "trim (js ''hello'') \<noteq> [] \<or> selectedFile anonymous_start \<noteq> None"
    by (simp add: hello_shown)
  have "messages (handleSend good_reply (Some (js ''hello'')) anonymous_start) =
      messages anonymous_start @
        [\<lparr>msg_role = User, msg_text = displayText (js ''hello'') (selectedFile anonymous_start),
          msg_audioUrl = None, msg_timestamp = sent_at good_reply\<rparr>,
         \<lparr>msg_role = Ai, msg_text = js ''hi there'', msg_audioUrl = Some (object_url good_reply),
          msg_timestamp = replied_at good_reply\<rparr>]"
  proof -
    have sent: "js ''hello'' =
        (case Some (js ''hello'') of None \<Rightarrow> inputText anonymous_start | Some t \<Rightarrow> t)"
      by simp
    have fields:
      "json_replyText \<lparr>json_replyText = Some (js ''hi there''),
         json_audioBase64 = Some (base64_encode [73, 68, 51]), json_error = None\<rparr> =
       Some (js ''hi there'')"
      "json_audioBase64 \<lparr>json_replyText = Some (js ''hi there''),
         json_audioBase64 = Some (base64_encode [73, 68, 51]), json_error = None\<rparr> =
       Some (base64_encode [73, 68, 51])"
      by (simp_all only: reply.simps)
    from handleSend_success
      [OF valid sent anonymous_start_current(1) resp(1) ok fields(1) nonempty(1) fields(2)
        nonempty(2) audio]
    show ?thesis
      by (rule conjunct1)
  qed
  then have "messages (handleSend good_reply (Some (js ''hello'')) anonymous_start) =
     [\<lparr>msg_role = User, msg_text = js ''hello'', msg_audioUrl = None, msg_timestamp = 500\<rparr>,
      \<lparr>msg_role = Ai, msg_text = js ''hi there'', msg_audioUrl = Some (js ''blob:1''),
       msg_timestamp = 600\<rparr>]"
    by (simp add: anonymous_start_current resp hello_shown)
  with hello_shown(1) anonymous_start_current(1,3) resp(1) ok nonempty audio show ?thesis
    by blast
qed

text \<open>
  C2 as stated fails for a success response whose \<open>audioBase64\<close> is present but is not
  base64: \<open>atob\<close> throws inside the \<open>try\<close> block, the handler shows a network error,
  and the conversation has grown by the \<open>user\<close> message only.
\<close>

theorem handleSend_success_counterexample:
  "trim (js ''hello'') \<noteq> [] \<and>
   currentConversation anonymous_start = Some (createNewConversation (env_of ''u0'' 100) 1) \<and>
   fetched undecodable_reply = Response 200
     (Json \<lparr>json_replyText = Some (js ''hi there''), json_audioBase64 = Some (js ''!''),
            json_error = None\<rparr>) \<and>
   response_ok 200 \<and> truthy (Some (js ''hi there'')) \<and> truthy (Some (js ''!'')) \<and>
   messages anonymous_start = [] \<and>
   messages (handleSend undecodable_reply (Some (js ''hello'')) anonymous_start) =
     [\<lparr>msg_role = User, msg_text = js ''hello'', msg_audioUrl = None, msg_timestamp = 500\<rparr>] \<and>
   alerts (handleSend undecodable_reply (Some (js ''hello'')) anonymous_start) =
     [js ''Network error: The string to be decoded is not correctly encoded.'']"
proof -
  have resp: "fetched undecodable_reply = Response 200
     (Json \<lparr>json_replyText = Some (js ''hi there''), json_audioBase64 = Some (js ''!''),
            json_error = None\<rparr>)"
    "sent_at undecodable_reply = 500"
    "atob_failure undecodable_reply = js ''The string to be decoded is not correctly encoded.''"
    by (simp_all add: undecodable_reply_def)
  have ok: "response_ok 200" "truthy (Some (js ''hi there''))" "truthy (Some (js ''!''))"
    by (simp_all add: response_ok_def truthy_def js_def)
  have bad: "atob (js ''!'') = None"
    by (simp add: atob_def remove_padding_def base64_value_def base64_alphabet_def
        is_ascii_whitespace_def js_def Let_def)
  have valid: "trim (js ''hello'') \<noteq> [] \<or> selectedFile anonymous_start \<noteq> None"
    by (simp add: hello_shown)
  let ?sent = "\<lparr>msg_role = User, msg_text = js ''hello'', msg_audioUrl = None,
                 msg_timestamp = 500\<rparr>"
  let ?s2 = "(updateMessagesOf (user anonymous_start)
               (Some (createNewConversation (env_of ''u0'' 100) 1))
               (\<lambda>msgs. msgs @ [?sent]) anonymous_start)\<lparr>loading := True, inputText := []\<rparr>"
  have sent: "js ''hello'' =
      (case Some (js ''hello'') of None \<Rightarrow> inputText anonymous_start | Some t \<Rightarrow> t)"
    by simp
  have result: "handleSend undecodable_reply (Some (js ''hello'')) anonymous_start =
      (alert (js ''Network error: '' @ js ''The string to be decoded is not correctly encoded.'')
         ?s2)\<lparr>loading := False\<rparr>"
    by (simp only: handleSend_valid [OF valid sent anonymous_start_current(1)])
       (simp add: tryExchange_def base64ToAudioUrl_def resp ok bad anonymous_start_current
        hello_shown Let_def)
  have convs: "conversations (handleSend undecodable_reply (Some (js ''hello'')) anonymous_start) =
      map (\<lambda>c. if conv_id c = conv_id (createNewConversation (env_of ''u0'' 100) 1)
               then c\<lparr>conv_messages := conv_messages c @ [?sent]\<rparr> else c)
        (conversations anonymous_start)"
    by (simp add: result conversations_updateMessagesOf)
  have sel: "currentConversationId (handleSend undecodable_reply (Some (js ''hello'')) anonymous_start) =
      currentConversationId anonymous_start"
    by (simp add: result)
  have msgs: "messages (handleSend undecodable_reply (Some (js ''hello'')) anonymous_start) = [?sent]"
    using messages_map [OF convs sel anonymous_start_current(1)]
    by (simp add: anonymous_start_current)
  have "alerts (handleSend undecodable_reply (Some (js ''hello'')) anonymous_start) =
     [js ''Network error: '' @ js ''The string to be decoded is not correctly encoded.'']"
    by (simp add: result anonymous_start_current)
  moreover have "js ''Network error: '' @ js ''The string to be decoded is not correctly encoded.'' =
      js ''Network error: The string to be decoded is not correctly encoded.''"
    by (simp add: js_def)
  ultimately have al: "alerts (handleSend undecodable_reply (Some (js ''hello'')) anonymous_start) =
     [js ''Network error: The string to be decoded is not correctly encoded.'']"
    by (simp only:)
  from hello_shown(1) anonymous_start_current(1,3) resp(1) ok msgs al show ?thesis
    by blast
qed

text \<open>
  C3: when a request that passed validation fails (network error, a status that is not
  a success, or a success response whose body cannot be read or lacks \<open>replyText\<close> or
  \<open>audioBase64\<close>), the store is the prior store with the \<open>user\<close> message appended to
  the conversation on display: the \<open>ai\<close> messages of every conversation are as before,
  the \<open>user\<close> message is kept, and exactly one more message has been shown to the user,
  which is not empty: \<open>Network error:\<close> with the message of the error when the request
  was rejected or the body of a success response could not be read,
  \<open>Server error\<close> with the status and the \<open>error\<close> of the body when the status is not a
  success, and \<open>Server did not return audioBase64 / replyText\<close> when a field is lacking.
\<close>

theorem handleSend_failure:
  assumes "trim text \<noteq> [] \<or> selectedFile s \<noteq> None"
    and "text = (case textToSend of None \<Rightarrow> inputText s | Some t \<Rightarrow> t)"
    and "currentConversation s = Some cc"
    and "exchange_failed x"
  shows "conversations (handleSend x textToSend s) =
           map (\<lambda>c. if conv_id c = conv_id cc
                    then c\<lparr>conv_messages := conv_messages c @
                           [\<lparr>msg_role = User, msg_text = displayText text (selectedFile s),
                             msg_audioUrl = None, msg_timestamp = sent_at x\<rparr>]\<rparr>
                    else c) (conversations s) \<and>
         map (\<lambda>c. filter (\<lambda>m. msg_role m = Ai) (conv_messages c))
             (conversations (handleSend x textToSend s)) =
           map (\<lambda>c. filter (\<lambda>m. msg_role m = Ai) (conv_messages c)) (conversations s) \<and>
         messages (handleSend x textToSend s) =
           messages s @ [\<lparr>msg_role = User, msg_text = displayText text (selectedFile s),
                           msg_audioUrl = None, msg_timestamp = sent_at x\<rparr>] \<and>
         (\<exists>m. m \<noteq> [] \<and> alerts (handleSend x textToSend s) = alerts s @ [m]) \<and>
         alerts (handleSend x textToSend s) =
           alerts s @
             [case fetched x of
                Rejected msg \<Rightarrow> js ''Network error: '' @ msg
              | Response status body \<Rightarrow>
                  if \<not> response_ok status
                  then js ''Server error '' @ string_of_nat status @ js '': '' @
                       (case body of
                          Unreadable _ \<Rightarrow> []
                        | Json errData \<Rightarrow>
                            (case json_error errData of None \<Rightarrow> [] | Some detail \<Rightarrow> detail))
                  else (case body of
                          Unreadable msg \<Rightarrow> js ''Network error: '' @ msg
                        | Json data \<Rightarrow> js ''Server did not return audioBase64 / replyText'')]"
proof -
  let ?sent = "\<lparr>msg_role = User, msg_text = displayText text (selectedFile s),
                 msg_audioUrl = None, msg_timestamp = sent_at x\<rparr>"
  let ?s2 = "(updateMessagesOf (user s) (Some cc) (\<lambda>msgs. msgs @ [?sent]) s)
               \<lparr>loading := True, inputText := []\<rparr>"
  let ?shown = "case fetched x of
                Rejected msg \<Rightarrow> js ''Network error: '' @ msg
              | Response status body \<Rightarrow>
                  if \<not> response_ok status
                  then js ''Server error '' @ string_of_nat status @ js '': '' @
                       (case body of
                          Unreadable _ \<Rightarrow> []
                        | Json errData \<Rightarrow>
                            (case json_error errData of None \<Rightarrow> [] | Some detail \<Rightarrow> detail))
                  else (case body of
                          Unreadable msg \<Rightarrow> js ''Network error: '' @ msg
                        | Json data \<Rightarrow> js ''Server did not return audioBase64 / replyText'')"
  let ?s3 = "case fetched x of
                Rejected _ \<Rightarrow> ?s2
              | Response _ _ \<Rightarrow>
                  if selectedFile s \<noteq> None then ?s2\<lparr>selectedFile := None\<rparr> else ?s2"
  have failed: "tryExchange x (user s) cc (selectedFile s) ?s2 = alert ?shown ?s3"
    by (rule tryExchange_failed [OF assms(4)])
  have kept: "conversations ?s3 = conversations ?s2"
    "currentConversationId ?s3 = currentConversationId ?s2" "alerts ?s3 = alerts ?s2"
    by (simp_all split: fetch_result.splits)
  have result: "handleSend x textToSend s = (alert ?shown ?s3)\<lparr>loading := False\<rparr>"
    by (simp only: handleSend_valid [OF assms(1-3)] failed)
  have convs: "conversations (handleSend x textToSend s) =
      map (\<lambda>c. if conv_id c = conv_id cc
               then c\<lparr>conv_messages := conv_messages c @ [?sent]\<rparr> else c) (conversations s)"
    by (simp add: result kept(1) conversations_updateMessagesOf)
  have sel: "currentConversationId (handleSend x textToSend s) = currentConversationId s"
    by (simp add: result kept(2))
  have "map (\<lambda>c. filter (\<lambda>m. msg_role m = Ai) (conv_messages c))
          (conversations (handleSend x textToSend s)) =
        map (\<lambda>c. filter (\<lambda>m. msg_role m = Ai) (conv_messages c)) (conversations s)"
    by (auto simp: convs)
  moreover have "messages (handleSend x textToSend s) = messages s @ [?sent]"
    using convs sel assms(3) by (rule messages_map)
  moreover have shown: "alerts (handleSend x textToSend s) = alerts s @ [?shown]"
    by (simp add: result kept(3))
  moreover have "?shown \<noteq> []"
    by (rule failure_text_nonempty)
  with shown have "\<exists>m. m \<noteq> [] \<and> alerts (handleSend x textToSend s) = alerts s @ [m]"
    by blast
  ultimately show ?thesis
    using convs by blast
qed

theorem handleSend_failure_witness:
  "trim (js ''hello'') \<noteq> [] \<and>
   currentConversation anonymous_start = Some (createNewConversation (env_of ''u0'' 100) 1) \<and>
   exchange_failed server_error \<and>
   messages (handleSend server_error (Some (js ''hello'')) anonymous_start) =
     [\<lparr>msg_role = User, msg_text = js ''hello'', msg_audioUrl = None, msg_timestamp = 500\<rparr>] \<and>
   map (\<lambda>c. filter (\<lambda>m. msg_role m = Ai) (conv_messages c))
     (conversations (handleSend server_error (Some (js ''hello'')) anonymous_start)) = [ [] ] \<and>
   length (alerts (handleSend server_error (Some (js ''hello'')) anonymous_start)) = 1 \<and>
   alerts (handleSend server_error (Some (js ''hello'')) anonymous_start) =
     [js ''Server error 500: No reply from Gemini'']"
proof -
  have failed: "exchange_failed server_error" "sent_at server_error = 500"
    by (simp_all add: exchange_failed_def server_error_def response_ok_def)
  have valid: "trim (js ''hello'') \<noteq> [] \<or> selectedFile anonymous_start \<noteq> None"
    by (simp add: hello_shown)
  have sent: "js ''hello'' =
      (case Some (js ''hello'') of None \<Rightarrow> inputText anonymous_start | Some t \<Rightarrow> t)"
    by simp
  note inst = handleSend_failure [OF valid sent anonymous_start_current(1) failed(1)]
  from inst have "messages (handleSend server_error (Some (js ''hello'')) anonymous_start) =
     [\<lparr>msg_role = User, msg_text = js ''hello'', msg_audioUrl = None, msg_timestamp = 500\<rparr>]"
    by (simp add: anonymous_start_current hello_shown failed)
  moreover from inst have "map (\<lambda>c. filter (\<lambda>m. msg_role m = Ai) (conv_messages c))
     (conversations (handleSend server_error (Some (js ''hello'')) anonymous_start)) = [ [] ]"
    by (simp add: anonymous_start_current createNewConversation_env_of)
  moreover from inst
  have "length (alerts (handleSend server_error (Some (js ''hello'')) anonymous_start)) = 1"
    by (auto simp: anonymous_start_current)
  moreover have "(case fetched server_error of
                Rejected msg \<Rightarrow> js ''Network error: '' @ msg
              | Response status body \<Rightarrow>
                  if \<not> response_ok status
                  then js ''Server error '' @ string_of_nat status @ js '': '' @
                       (case body of
                          Unreadable _ \<Rightarrow> []
                        | Json errData \<Rightarrow>
                            (case json_error errData of None \<Rightarrow> [] | Some detail \<Rightarrow> detail))
                  else (case body of
                          Unreadable msg \<Rightarrow> js ''Network error: '' @ msg
                        | Json data \<Rightarrow> js ''Server did not return audioBase64 / replyText'')) =
      js ''Server error 500: No reply from Gemini''"
    by (simp add: server_error_def response_ok_def js_def string_of_nat.simps)
  with inst have "alerts (handleSend server_error (Some (js ''hello'')) anonymous_start) =
     [js ''Server error 500: No reply from Gemini'']"
    by (simp only: anonymous_start_current append_Nil)
  ultimately show ?thesis
    using hello_shown(1) anonymous_start_current(1) failed(1) by blast
qed

end
